theory Spec2Isabelle
  imports Main
begin

section \<open>Debug access to ARC cores over JTAG: the transaction engine of applet/jtag/arc.py\<close>

text \<open>
  The class \<^verbatim>\<open>JTAGARCInterface\<close> drives a JTAG test access port through three calls of
  its \<^verbatim>\<open>lower\<close> object: \<^verbatim>\<open>write_ir\<close>, \<^verbatim>\<open>write_dr\<close> and \<^verbatim>\<open>read_dr\<close>. Its four methods
  \<^verbatim>\<open>identify\<close>, \<^verbatim>\<open>_wait_txn\<close>, \<^verbatim>\<open>read\<close> and \<^verbatim>\<open>write\<close> are embedded below. A method is a
  function of the list of requests the port has received so far; it returns the requests
  received at its end together with either the raised exception or the returned value, and
  \<open>None\<close> when the method never returns (the polling loop of \<^verbatim>\<open>_wait_txn\<close> has no bound).
  The calls of \<^verbatim>\<open>self._log\<close> only format messages and are left out.
\<close>

type_synonym bits = "bool list"

subsection \<open>Register codec\<close>

text \<open>
  Modelled from the spec: the Register Codec. The bitstruct library and the declarations
  of the registers \<^verbatim>\<open>DR_IDCODE\<close>, \<^verbatim>\<open>DR_STATUS\<close>, \<^verbatim>\<open>DR_ADDRESS\<close> and \<^verbatim>\<open>DR_DATA\<close> are imported by
  arc.py from other modules. Section 4.1 of the spec gives the contract: a register is a
  sequence of fields of fixed widths, \<open>encode\<close> maps the field values to a bit sequence of
  the register's width, \<open>decode\<close> is a pure bit-field extraction from a bit sequence of that
  width. A bit sequence is written least significant bit first, the order in which JTAG
  shifts it; a register layout is the list of its field widths, lowest field first.
\<close>

fun bits_of_nat :: "nat \<Rightarrow> nat \<Rightarrow> bits" where
  "bits_of_nat 0 v = []"
| "bits_of_nat (Suc w) v = odd v # bits_of_nat w (v div 2)"

fun nat_of_bits :: "bits \<Rightarrow> nat" where
  "nat_of_bits [] = 0"
| "nat_of_bits (b # bs) = (if b then 1 else 0) + 2 * nat_of_bits bs"

fun bitstruct_to_bitarray :: "nat list \<Rightarrow> nat list \<Rightarrow> bits" where
  "bitstruct_to_bitarray (w # ws) (v # vs) = bits_of_nat w v @ bitstruct_to_bitarray ws vs"
| "bitstruct_to_bitarray ws vs = []"

fun bitstruct_from_bitarray :: "nat list \<Rightarrow> bits \<Rightarrow> nat list" where
  "bitstruct_from_bitarray [] bs = []"
| "bitstruct_from_bitarray (w # ws) bs =
     nat_of_bits (take w bs) # bitstruct_from_bitarray ws (drop w bs)"

text \<open>A field assignment is valid for a layout when it gives every field a value that fits.\<close>

fun valid_fields :: "nat list \<Rightarrow> nat list \<Rightarrow> bool" where
  "valid_fields [] [] = True"
| "valid_fields (w # ws) (v # vs) = (v < 2 ^ w \<and> valid_fields ws vs)"
| "valid_fields ws vs = False"

text \<open>
  Modelled from the spec: \<^verbatim>\<open>DR_ADDRESS\<close> and \<^verbatim>\<open>DR_DATA\<close> are 32-bit registers (section 3) with
  the single fields \<^verbatim>\<open>Address\<close> and \<^verbatim>\<open>Data\<close> that arc.py sets and reads.
\<close>

record dr_address =
  Address :: nat

record dr_data =
  Data :: nat

definition DR_ADDRESS_to_bitarray :: "dr_address \<Rightarrow> bits" where
  "DR_ADDRESS_to_bitarray r = bitstruct_to_bitarray [32] [Address r]"

definition DR_ADDRESS_from_bitarray :: "bits \<Rightarrow> dr_address" where
  "DR_ADDRESS_from_bitarray bs = \<lparr>Address = nat_of_bits (take 32 bs)\<rparr>"

definition DR_DATA_to_bitarray :: "dr_data \<Rightarrow> bits" where
  "DR_DATA_to_bitarray r = bitstruct_to_bitarray [32] [Data r]"

definition DR_DATA_from_bitarray :: "bits \<Rightarrow> dr_data" where
  "DR_DATA_from_bitarray bs = \<lparr>Data = nat_of_bits (take 32 bs)\<rparr>"

text \<open>
  Modelled from the spec: \<^verbatim>\<open>DR_IDCODE\<close> is a 32-bit register with the fields \<^verbatim>\<open>mfg_id\<close>,
  \<^verbatim>\<open>part_id\<close> and \<^verbatim>\<open>version\<close>, and \<^verbatim>\<open>DR_STATUS\<close> a 4-bit register with the flags \<^verbatim>\<open>RD\<close> and
  \<^verbatim>\<open>FL\<close> (section 3). Neither the spec nor arc.py gives the position of these fields, so
  the decoders of both registers are parameters of the engine (record \<open>arch\<close> below).
  \<^verbatim>\<open>DR_STATUS()\<close> without arguments is the register with every flag clear: the protocol of
  section 4.2 shifts the data register before it first tests \<^verbatim>\<open>RD\<close>.
\<close>

record dr_idcode =
  mfg_id :: nat
  part_id :: nat
  version :: nat

record dr_status =
  FL :: bool
  RD :: bool

definition DR_STATUS_new :: dr_status where
  "DR_STATUS_new = \<lparr>FL = False, RD = False\<rparr>"

subsection \<open>What arc.py imports: register numbers, opcodes, decoders, device catalog\<close>

text \<open>
  The instruction register values \<^verbatim>\<open>IR_*\<close>, the six transaction opcodes
  \<^verbatim>\<open>DR_TXN_COMMAND_*\<close>, the decoders of \<^verbatim>\<open>DR_IDCODE\<close> and \<^verbatim>\<open>DR_STATUS\<close> and the table \<^verbatim>\<open>devices\<close>
  come from modules that arc.py imports. The engine takes them as one parameter.
  The catalog is a lookup that yields a device or nothing (section 4.3 of the spec;
  \<^verbatim>\<open>interact\<close> in arc.py tests the device it gets against \<^verbatim>\<open>None\<close>).
\<close>

record device =
  name :: string

record arch =
  IR_IDCODE :: bits
  IR_STATUS :: bits
  IR_TXN_COMMAND :: bits
  IR_ADDRESS :: bits
  IR_DATA :: bits
  DR_TXN_COMMAND_WRITE_MEMORY :: bits
  DR_TXN_COMMAND_WRITE_CORE :: bits
  DR_TXN_COMMAND_WRITE_AUX :: bits
  DR_TXN_COMMAND_READ_MEMORY :: bits
  DR_TXN_COMMAND_READ_CORE :: bits
  DR_TXN_COMMAND_READ_AUX :: bits
  DR_IDCODE_from_bitarray :: "bits \<Rightarrow> dr_idcode"
  DR_STATUS_from_bitarray :: "bits \<Rightarrow> dr_status"
  devices :: "nat \<times> nat \<Rightarrow> device option"

subsection \<open>Exceptions and the transport port\<close>

text \<open>
  \<open>GlasgowAppletError\<close> is raised by \<^verbatim>\<open>_wait_txn\<close>, \<open>AssertionError\<close> by \<^verbatim>\<open>assert False\<close>
  (assertions are on, as they are unless the interpreter is started with \<^verbatim>\<open>-O\<close>);
  \<open>TransportError\<close> stands for whatever the port itself raises.
\<close>

datatype error = TransportError | GlasgowAppletError string | AssertionError

datatype request = Write_IR bits | Write_DR bits | Read_DR nat

text \<open>
  Modelled from the spec: the Transport Port (section 6), \<^verbatim>\<open>write_ir(code)\<close>,
  \<^verbatim>\<open>write_dr(bits)\<close> and \<^verbatim>\<open>read_dr(width) -> bits\<close>, supplied from outside arc.py. A port is
  any deterministic device: its answer to a request depends on the requests it has
  received before. \<open>None\<close> is a transport error; the answer to a write carries no bits
  that the engine looks at. A read that does not hand back the number of bits asked for
  is a malformed response, which section 6 counts among the transport errors. Every
  request is recorded, also the one that fails.
\<close>

type_synonym lower = "request list \<Rightarrow> request \<Rightarrow> bits option"

type_synonym 'a io = "request list \<Rightarrow> ((error + 'a) \<times> request list) option"

definition io_return :: "'a \<Rightarrow> 'a io" where
  "io_return x h = Some (Inr x, h)"

definition io_raise :: "error \<Rightarrow> 'a io" where
  "io_raise e h = Some (Inl e, h)"

definition io_bind :: "'a io \<Rightarrow> ('a \<Rightarrow> 'b io) \<Rightarrow> 'b io" where
  "io_bind m f h =
     (case m h of
        None \<Rightarrow> None
      | Some (Inl e, h') \<Rightarrow> Some (Inl e, h')
      | Some (Inr x, h') \<Rightarrow> f x h')"

definition write_ir :: "lower \<Rightarrow> bits \<Rightarrow> unit io" where
  "write_ir lower code h =
     (case lower h (Write_IR code) of
        None \<Rightarrow> Some (Inl TransportError, h @ [Write_IR code])
      | Some _ \<Rightarrow> Some (Inr (), h @ [Write_IR code]))"

definition write_dr :: "lower \<Rightarrow> bits \<Rightarrow> unit io" where
  "write_dr lower bs h =
     (case lower h (Write_DR bs) of
        None \<Rightarrow> Some (Inl TransportError, h @ [Write_DR bs])
      | Some _ \<Rightarrow> Some (Inr (), h @ [Write_DR bs]))"

definition read_dr :: "lower \<Rightarrow> nat \<Rightarrow> bits io" where
  "read_dr lower n h =
     (case lower h (Read_DR n) of
        None \<Rightarrow> Some (Inl TransportError, h @ [Read_DR n])
      | Some bs \<Rightarrow>
          if length bs = n then Some (Inr bs, h @ [Read_DR n])
          else Some (Inl TransportError, h @ [Read_DR n]))"

subsection \<open>The engine: identify, _wait_txn, read, write\<close>

definition identify :: "arch \<Rightarrow> lower \<Rightarrow> (dr_idcode \<times> device option) io" where
  "identify A lower =
     io_bind (write_ir lower (IR_IDCODE A)) (\<lambda>_.
     io_bind (read_dr lower 32) (\<lambda>idcode_bits.
       let idcode = DR_IDCODE_from_bitarray A idcode_bits;
           device = devices A (mfg_id idcode, part_id idcode)
       in io_return (idcode, device)))"

text \<open>
  The loop \<^verbatim>\<open>while not status.RD\<close> of \<^verbatim>\<open>_wait_txn\<close>, entered with the current \<^verbatim>\<open>status\<close>.
  It has no bound, so it is a partial function: \<open>None\<close> is the loop that never ends.
\<close>

partial_function (option) wait_loop :: "arch \<Rightarrow> lower \<Rightarrow> dr_status \<Rightarrow> unit io" where
  "wait_loop A lower status h =
     (if \<not> RD status then
        (case read_dr lower 4 h of
           None \<Rightarrow> None
         | Some (Inl e, h') \<Rightarrow> Some (Inl e, h')
         | Some (Inr status_bits, h') \<Rightarrow>
             (let status' = DR_STATUS_from_bitarray A status_bits in
              if FL status' then Some (Inl (GlasgowAppletError ''transaction failed''), h')
              else wait_loop A lower status' h'))
      else Some (Inr (), h))"

definition wait_txn :: "arch \<Rightarrow> lower \<Rightarrow> unit io" where
  "wait_txn A lower =
     io_bind (write_ir lower (IR_STATUS A)) (\<lambda>_.
     wait_loop A lower DR_STATUS_new)"

definition read :: "arch \<Rightarrow> lower \<Rightarrow> nat \<Rightarrow> string \<Rightarrow> nat io" where
  "read A lower address space =
     io_bind
       (if space = ''memory'' then io_return (DR_TXN_COMMAND_READ_MEMORY A)
        else if space = ''core'' then io_return (DR_TXN_COMMAND_READ_CORE A)
        else if space = ''aux'' then io_return (DR_TXN_COMMAND_READ_AUX A)
        else io_raise AssertionError) (\<lambda>dr_txn_command.
     let dr_address = \<lparr>Address = address\<rparr> in
     io_bind (write_ir lower (IR_ADDRESS A)) (\<lambda>_.
     io_bind (write_dr lower (DR_ADDRESS_to_bitarray dr_address)) (\<lambda>_.
     io_bind (write_ir lower (IR_TXN_COMMAND A)) (\<lambda>_.
     io_bind (write_dr lower dr_txn_command) (\<lambda>_.
     io_bind (wait_txn A lower) (\<lambda>_.
     io_bind (write_ir lower (IR_DATA A)) (\<lambda>_.
     io_bind (read_dr lower 32) (\<lambda>dr_data_bits.
       let dr_data = DR_DATA_from_bitarray dr_data_bits
       in io_return (Data dr_data)))))))))"

text \<open>\<^verbatim>\<open>write\<close> of arc.py; the name \<open>write\<close> is taken in Isabelle.\<close>

definition write_op :: "arch \<Rightarrow> lower \<Rightarrow> nat \<Rightarrow> nat \<Rightarrow> string \<Rightarrow> unit io" where
  "write_op A lower address data space =
     io_bind
       (if space = ''memory'' then io_return (DR_TXN_COMMAND_WRITE_MEMORY A)
        else if space = ''core'' then io_return (DR_TXN_COMMAND_WRITE_CORE A)
        else if space = ''aux'' then io_return (DR_TXN_COMMAND_WRITE_AUX A)
        else io_raise AssertionError) (\<lambda>dr_txn_command.
     let dr_address = \<lparr>Address = address\<rparr> in
     io_bind (write_ir lower (IR_ADDRESS A)) (\<lambda>_.
     io_bind (write_dr lower (DR_ADDRESS_to_bitarray dr_address)) (\<lambda>_.
     io_bind (write_ir lower (IR_DATA A)) (\<lambda>_.
     let dr_data = \<lparr>Data = data\<rparr> in
     io_bind (write_dr lower (DR_DATA_to_bitarray dr_data)) (\<lambda>_.
     io_bind (write_ir lower (IR_TXN_COMMAND A)) (\<lambda>_.
     io_bind (write_dr lower dr_txn_command) (\<lambda>_.
     wait_txn A lower)))))))"

subsection \<open>Vocabulary of the statements\<close>

text \<open>
  \<open>shifted lower h n\<close> are the bits the port hands back to a read of \<open>n\<close> bits issued
  after the requests \<open>h\<close>. A port is in order when it answers every request and every
  read with the number of bits asked for. \<open>status_at A lower h j\<close> is the status decoded
  from poll number \<open>j\<close> (counted from 0) of a polling phase that starts after \<open>h\<close>, and
  \<open>poll A lower h j\<close> what that poll does to the loop: an exception, the normal end
  \<open>Inr ()\<close>, or \<open>None\<close> when the loop goes on.
\<close>

definition shifted :: "lower \<Rightarrow> request list \<Rightarrow> nat \<Rightarrow> bits" where
  "shifted lower h n = (case lower h (Read_DR n) of None \<Rightarrow> [] | Some bs \<Rightarrow> bs)"

definition port_ok :: "lower \<Rightarrow> bool" where
  "port_ok lower \<longleftrightarrow>
     (\<forall>h r. lower h r \<noteq> None) \<and> (\<forall>h n. length (shifted lower h n) = n)"

definition status_at :: "arch \<Rightarrow> lower \<Rightarrow> request list \<Rightarrow> nat \<Rightarrow> dr_status" where
  "status_at A lower h j =
     DR_STATUS_from_bitarray A (shifted lower (h @ replicate j (Read_DR 4)) 4)"

definition poll :: "arch \<Rightarrow> lower \<Rightarrow> request list \<Rightarrow> nat \<Rightarrow> (error + unit) option" where
  "poll A lower h j =
     (case lower (h @ replicate j (Read_DR 4)) (Read_DR 4) of
        None \<Rightarrow> Some (Inl TransportError)
      | Some bs \<Rightarrow>
          if length bs \<noteq> 4 then Some (Inl TransportError)
          else if FL (DR_STATUS_from_bitarray A bs)
            then Some (Inl (GlasgowAppletError ''transaction failed''))
          else if RD (DR_STATUS_from_bitarray A bs) then Some (Inr ())
          else None)"

text \<open>The instruction register values and the data register shifts among a list of requests.\<close>

fun ir_selections :: "request list \<Rightarrow> bits list" where
  "ir_selections [] = []"
| "ir_selections (Write_IR code # rs) = code # ir_selections rs"
| "ir_selections (r # rs) = ir_selections rs"

fun dr_shifts :: "request list \<Rightarrow> request list" where
  "dr_shifts [] = []"
| "dr_shifts (Write_IR code # rs) = dr_shifts rs"
| "dr_shifts (r # rs) = r # dr_shifts rs"

subsection \<open>A sample target and a simulated port\<close>

text \<open>
  One instance of the parameters, for concrete runs: the status flags \<^verbatim>\<open>FL\<close> and \<^verbatim>\<open>RD\<close> in
  bits 1 and 2, the identification fields at bits 1 to 11, 12 to 27 and 28 to 31, and a
  catalog with one device. The simulated port answers poll number \<open>j\<close> with the status
  \<open>script j\<close> and every other read with the low bits of \<open>word\<close>.
\<close>

definition sample_status :: "bits \<Rightarrow> dr_status" where
  "sample_status bs = \<lparr>FL = odd (nat_of_bits bs div 2), RD = odd (nat_of_bits bs div 4)\<rparr>"

definition sample_idcode :: "bits \<Rightarrow> dr_idcode" where
  "sample_idcode bs =
     \<lparr>mfg_id = nat_of_bits (take 11 (drop 1 bs)),
      part_id = nat_of_bits (take 16 (drop 12 bs)),
      version = nat_of_bits (take 4 (drop 28 bs))\<rparr>"

definition sample_arch :: arch where
  "sample_arch =
     \<lparr>IR_IDCODE = bits_of_nat 4 12, IR_STATUS = bits_of_nat 4 8,
      IR_TXN_COMMAND = bits_of_nat 4 9, IR_ADDRESS = bits_of_nat 4 10,
      IR_DATA = bits_of_nat 4 11,
      DR_TXN_COMMAND_WRITE_MEMORY = bits_of_nat 4 0,
      DR_TXN_COMMAND_WRITE_CORE = bits_of_nat 4 1,
      DR_TXN_COMMAND_WRITE_AUX = bits_of_nat 4 2,
      DR_TXN_COMMAND_READ_MEMORY = bits_of_nat 4 4,
      DR_TXN_COMMAND_READ_CORE = bits_of_nat 4 5,
      DR_TXN_COMMAND_READ_AUX = bits_of_nat 4 6,
      DR_IDCODE_from_bitarray = sample_idcode,
      DR_STATUS_from_bitarray = sample_status,
      devices = [(600, 2) \<mapsto> \<lparr>name = ''ARC6xx''\<rparr>]\<rparr>"

definition sim_port :: "(nat \<Rightarrow> nat) \<Rightarrow> nat \<Rightarrow> lower" where
  "sim_port script word h r =
     (case r of
        Read_DR n \<Rightarrow>
          if n = 4 then Some (bits_of_nat 4 (script (length (filter (\<lambda>q. q = Read_DR 4) h))))
          else Some (bits_of_nat n word)
      | _ \<Rightarrow> Some [])"

section \<open>Properties\<close>

subsection \<open>The codec\<close>

lemma length_bits_of_nat: "length (bits_of_nat w v) = w"
  by (induction w arbitrary: v) simp_all

lemma nat_of_bits_of_nat: "nat_of_bits (bits_of_nat w v) = v mod 2 ^ w"
proof (induction w arbitrary: v)
  case 0
  then show ?case by simp
next
  case (Suc w)
  have "v mod (2 * 2 ^ w) = v mod 2 + 2 * (v div 2 mod 2 ^ w)"
    by (simp add: mod_mult2_eq)
  with Suc show ?case by (simp add: odd_iff_mod_2_eq_one)
qed

lemma nat_of_bits_less: "nat_of_bits bs < 2 ^ length bs"
  by (induction bs) auto

lemma bits_of_nat_of_bits: "length bs = w \<Longrightarrow> bits_of_nat w (nat_of_bits bs) = bs"
  by (induction bs arbitrary: w) auto

lemma bitstruct_round_trip:
  "valid_fields ws vs \<Longrightarrow> bitstruct_from_bitarray ws (bitstruct_to_bitarray ws vs) = vs"
  by (induction ws vs rule: valid_fields.induct)
     (simp_all add: length_bits_of_nat nat_of_bits_of_nat)

lemma bitstruct_width:
  "valid_fields ws vs \<Longrightarrow> length (bitstruct_to_bitarray ws vs) = sum_list ws"
  by (induction ws vs rule: valid_fields.induct) (simp_all add: length_bits_of_nat)

lemma bitstruct_decode_valid:
  "length bs = sum_list ws \<Longrightarrow> valid_fields ws (bitstruct_from_bitarray ws bs)"
proof (induction ws arbitrary: bs)
  case Nil
  then show ?case by simp
next
  case (Cons w ws)
  have "nat_of_bits (take w bs) < 2 ^ length (take w bs)" by (rule nat_of_bits_less)
  moreover have "length (take w bs) = w" using Cons.prems by simp
  ultimately show ?case using Cons by simp
qed

lemma bitstruct_decode_encode:
  "length bs = sum_list ws \<Longrightarrow> bitstruct_to_bitarray ws (bitstruct_from_bitarray ws bs) = bs"
proof (induction ws arbitrary: bs)
  case Nil
  then show ?case by simp
next
  case (Cons w ws)
  have "length (take w bs) = w" using Cons.prems by simp
  then have "bits_of_nat w (nat_of_bits (take w bs)) = take w bs"
    by (rule bits_of_nat_of_bits)
  moreover have "bitstruct_to_bitarray ws (bitstruct_from_bitarray ws (drop w bs)) = drop w bs"
    using Cons.prems by (intro Cons.IH) simp
  ultimately show ?case by simp
qed
lemma address_round_trip:
  "a < 2 ^ 32 \<Longrightarrow> DR_ADDRESS_from_bitarray (DR_ADDRESS_to_bitarray \<lparr>Address = a\<rparr>) = \<lparr>Address = a\<rparr>"
  by (simp add: DR_ADDRESS_from_bitarray_def DR_ADDRESS_to_bitarray_def
        length_bits_of_nat nat_of_bits_of_nat)

lemma data_round_trip:
  "d < 2 ^ 32 \<Longrightarrow> DR_DATA_from_bitarray (DR_DATA_to_bitarray \<lparr>Data = d\<rparr>) = \<lparr>Data = d\<rparr>"
  by (simp add: DR_DATA_from_bitarray_def DR_DATA_to_bitarray_def
        length_bits_of_nat nat_of_bits_of_nat)

subsection \<open>The polling loop\<close>

lemma poll_shift: "poll A T (h @ [Read_DR 4]) j = poll A T h (Suc j)"
  by (simp add: poll_def)

lemma poll_None: "poll A T h j = None \<Longrightarrow> \<not> RD (status_at A T h j) \<and> \<not> FL (status_at A T h j)"
  by (auto simp: poll_def status_at_def shifted_def split: option.splits if_splits)

lemma poll_port_ok:
  "port_ok T \<Longrightarrow> poll A T h j =
     (if FL (status_at A T h j) then Some (Inl (GlasgowAppletError ''transaction failed''))
      else if RD (status_at A T h j) then Some (Inr ())
      else None)"
  unfolding port_ok_def poll_def status_at_def shifted_def
  by (auto split: option.splits)

lemma wait_loop_RD: "RD s \<Longrightarrow> wait_loop A T s h = Some (Inr (), h)"
  by (subst wait_loop.simps) simp

lemma wait_loop_step:
  assumes "\<not> RD s"
  shows "wait_loop A T s h =
     (case poll A T h 0 of
        Some r \<Rightarrow> Some (r, h @ [Read_DR 4])
      | None \<Rightarrow> wait_loop A T (status_at A T h 0) (h @ [Read_DR 4]))"
  using assms
  by (subst wait_loop.simps)
     (auto simp: read_dr_def poll_def status_at_def shifted_def wait_loop_RD Let_def
           split: option.splits)

lemma wait_loop_finish:
  "\<not> RD s \<Longrightarrow> (\<forall>j<n. poll A T h j = None) \<Longrightarrow> poll A T h n = Some r \<Longrightarrow>
     wait_loop A T s h = Some (r, h @ replicate (Suc n) (Read_DR 4))"
proof (induction n arbitrary: s h)
  case 0
  then show ?case by (simp add: wait_loop_step)
next
  case (Suc n)
  have p0: "poll A T h 0 = None" using Suc.prems(2) by simp
  have nrd: "\<not> RD (status_at A T h 0)" using poll_None [OF p0] by simp
  have before: "\<forall>j<n. poll A T (h @ [Read_DR 4]) j = None"
    using Suc.prems(2) by (simp add: poll_shift)
  have at: "poll A T (h @ [Read_DR 4]) n = Some r"
    using Suc.prems(3) by (simp add: poll_shift)
  have "wait_loop A T s h = wait_loop A T (status_at A T h 0) (h @ [Read_DR 4])"
    using Suc.prems(1) p0 by (simp add: wait_loop_step)
  also have "\<dots> = Some (r, (h @ [Read_DR 4]) @ replicate (Suc n) (Read_DR 4))"
    by (rule Suc.IH [OF nrd before at])
  finally show ?case by simp
qed

lemma wait_loop_returns:
  assumes "wait_loop A T s h = Some y"
  shows "if RD s then y = (Inr (), h)
         else (\<exists>k. (\<forall>j<k. poll A T h j = None) \<and> poll A T h k = Some (fst y)
                    \<and> snd y = h @ replicate (Suc k) (Read_DR 4))"
  using assms
proof (induction rule: wait_loop.raw_induct [rotated 1, consumes 1, case_names step])
  case (step wl A T s h y)
  show ?case
  proof (cases "RD s")
    case True
    with step(2) show ?thesis by simp
  next
    case nrd: False
    show ?thesis
    proof (cases "poll A T h 0")
      case (Some r)
      have "y = (r, h @ [Read_DR 4])"
      proof (cases "r = Inr ()")
        case True
        with Some obtain bs where bs: "T h (Read_DR 4) = Some bs" "length bs = 4"
          "\<not> FL (DR_STATUS_from_bitarray A bs)" "RD (DR_STATUS_from_bitarray A bs)"
          by (auto simp: poll_def split: option.splits if_splits)
        with nrd step(2) have "wl A T (DR_STATUS_from_bitarray A bs) (h @ [Read_DR 4]) = Some y"
          by (simp add: read_dr_def)
        from step(1) [OF this] bs True show ?thesis by simp
      next
        case False
        with Some nrd step(2) show ?thesis
          by (auto simp: poll_def read_dr_def Let_def split: option.splits if_splits)
      qed
      with Some nrd show ?thesis by (auto intro!: exI [of _ 0])
    next
      case None
      then obtain bs where bs: "T h (Read_DR 4) = Some bs" "length bs = 4"
        "\<not> FL (DR_STATUS_from_bitarray A bs)" "\<not> RD (DR_STATUS_from_bitarray A bs)"
        by (auto simp: poll_def split: option.splits if_splits)
      with nrd step(2) have "wl A T (DR_STATUS_from_bitarray A bs) (h @ [Read_DR 4]) = Some y"
        by (simp add: read_dr_def)
      from step(1) [OF this] bs obtain k where k: "\<forall>j<k. poll A T (h @ [Read_DR 4]) j = None"
        "poll A T (h @ [Read_DR 4]) k = Some (fst y)"
        "snd y = (h @ [Read_DR 4]) @ replicate (Suc k) (Read_DR 4)"
        by auto
      have "\<forall>j<Suc k. poll A T h j = None"
      proof (intro allI impI)
        fix j assume "j < Suc k"
        then show "poll A T h j = None"
          using None k(1) by (cases j) (auto simp: poll_shift)
      qed
      moreover have "poll A T h (Suc k) = Some (fst y)"
        using k(2) by (simp add: poll_shift)
      moreover have "snd y = h @ replicate (Suc (Suc k)) (Read_DR 4)"
        using k(3) by simp
      ultimately show ?thesis using nrd by (auto intro!: exI [of _ "Suc k"])
    qed
  qed
qed

lemma wait_loop_diverges:
  assumes "\<not> RD s" and "\<forall>j. poll A T h j = None"
  shows "wait_loop A T s h = None"
proof (cases "wait_loop A T s h")
  case None
  then show ?thesis .
next
  case (Some y)
  from wait_loop_returns [OF Some] assms show ?thesis by auto
qed

subsection \<open>Runs over a port that is in order\<close>

lemma write_ir_ok: "port_ok T \<Longrightarrow> write_ir T c h = Some (Inr (), h @ [Write_IR c])"
  by (auto simp: port_ok_def write_ir_def split: option.splits)

lemma write_dr_ok: "port_ok T \<Longrightarrow> write_dr T bs h = Some (Inr (), h @ [Write_DR bs])"
  by (auto simp: port_ok_def write_dr_def split: option.splits)

lemma read_dr_ok: "port_ok T \<Longrightarrow> read_dr T n h = Some (Inr (shifted T h n), h @ [Read_DR n])"
  unfolding port_ok_def read_dr_def shifted_def
  by (auto split: option.splits)

lemma bind_return: "io_bind (io_return x) f h = f x h"
  by (simp add: io_bind_def io_return_def)

lemma bind_raise: "io_bind (io_raise e) f h = Some (Inl e, h)"
  by (simp add: io_bind_def io_raise_def)

lemma bind_write_ir: "port_ok T \<Longrightarrow> io_bind (write_ir T c) f h = f () (h @ [Write_IR c])"
  by (simp add: io_bind_def write_ir_ok)

lemma bind_write_dr: "port_ok T \<Longrightarrow> io_bind (write_dr T bs) f h = f () (h @ [Write_DR bs])"
  by (simp add: io_bind_def write_dr_ok)

lemma wait_txn_run:
  assumes ok: "port_ok T"
    and quiet: "\<forall>j<n. \<not> RD (status_at A T (h @ [Write_IR (IR_STATUS A)]) j)
                    \<and> \<not> FL (status_at A T (h @ [Write_IR (IR_STATUS A)]) j)"
    and fin: "RD (status_at A T (h @ [Write_IR (IR_STATUS A)]) n)
             \<or> FL (status_at A T (h @ [Write_IR (IR_STATUS A)]) n)"
  shows "wait_txn A T h =
     Some (if FL (status_at A T (h @ [Write_IR (IR_STATUS A)]) n)
           then Inl (GlasgowAppletError ''transaction failed'') else Inr (),
           h @ Write_IR (IR_STATUS A) # replicate (Suc n) (Read_DR 4))"
proof -
  let ?h1 = "h @ [Write_IR (IR_STATUS A)]"
  let ?r = "if FL (status_at A T ?h1 n)
           then Inl (GlasgowAppletError ''transaction failed'') else Inr ()"
  have a: "\<forall>j<n. poll A T ?h1 j = None"
    using quiet by (simp add: poll_port_ok [OF ok])
  have b: "poll A T ?h1 n = Some ?r"
    using fin by (auto simp: poll_port_ok [OF ok])
  have c: "\<not> RD DR_STATUS_new" by (simp add: DR_STATUS_new_def)
  have "wait_txn A T h = wait_loop A T DR_STATUS_new ?h1"
    by (simp add: wait_txn_def bind_write_ir [OF ok])
  also have "\<dots> = Some (?r, ?h1 @ replicate (Suc n) (Read_DR 4))"
    by (rule wait_loop_finish [OF c a b])
  finally show ?thesis by simp
qed


lemma wait_txn_returns:
  assumes ret: "wait_txn A T h = Some (r, h')"
    and sel: "T h (Write_IR (IR_STATUS A)) \<noteq> None"
  shows "\<exists>k. (\<forall>j<k. poll A T (h @ [Write_IR (IR_STATUS A)]) j = None)
            \<and> poll A T (h @ [Write_IR (IR_STATUS A)]) k = Some r
            \<and> h' = h @ Write_IR (IR_STATUS A) # replicate (Suc k) (Read_DR 4)"
proof -
  let ?h1 = "h @ [Write_IR (IR_STATUS A)]"
  have w: "write_ir T (IR_STATUS A) h = Some (Inr (), ?h1)"
    using sel by (auto simp: write_ir_def split: option.splits)
  have "wait_loop A T DR_STATUS_new ?h1 = Some (r, h')"
    using ret w by (simp add: wait_txn_def io_bind_def)
  from wait_loop_returns [OF this] show ?thesis
    by (simp add: DR_STATUS_new_def)
qed

lemma wait_txn_no_select:
  assumes "T h (Write_IR (IR_STATUS A)) = None"
  shows "wait_txn A T h = Some (Inl TransportError, h @ [Write_IR (IR_STATUS A)])"
  using assms by (simp add: wait_txn_def io_bind_def write_ir_def)

lemma read_run:
  assumes ok: "port_ok T"
    and sp: "(space, cmd) \<in> {(''memory'', DR_TXN_COMMAND_READ_MEMORY A),
                             (''core'', DR_TXN_COMMAND_READ_CORE A),
                             (''aux'', DR_TXN_COMMAND_READ_AUX A)}"
    and h1: "h1 = h @ [Write_IR (IR_ADDRESS A),
                       Write_DR (DR_ADDRESS_to_bitarray \<lparr>Address = address\<rparr>),
                       Write_IR (IR_TXN_COMMAND A), Write_DR cmd]"
  shows "read A T address space h =
     io_bind (wait_txn A T) (\<lambda>_.
     io_bind (write_ir T (IR_DATA A)) (\<lambda>_.
     io_bind (read_dr T 32) (\<lambda>dr_data_bits.
       io_return (Data (DR_DATA_from_bitarray dr_data_bits))))) h1"
proof -
  have "read A T address space h =
     io_bind (io_return cmd) (\<lambda>dr_txn_command.
     io_bind (write_ir T (IR_ADDRESS A)) (\<lambda>_.
     io_bind (write_dr T (DR_ADDRESS_to_bitarray \<lparr>Address = address\<rparr>)) (\<lambda>_.
     io_bind (write_ir T (IR_TXN_COMMAND A)) (\<lambda>_.
     io_bind (write_dr T dr_txn_command) (\<lambda>_.
     io_bind (wait_txn A T) (\<lambda>_.
     io_bind (write_ir T (IR_DATA A)) (\<lambda>_.
     io_bind (read_dr T 32) (\<lambda>dr_data_bits.
       io_return (Data (DR_DATA_from_bitarray dr_data_bits)))))))))) h"
    using sp by (auto simp: read_def Let_def)
  also have "\<dots> = io_bind (wait_txn A T) (\<lambda>_.
     io_bind (write_ir T (IR_DATA A)) (\<lambda>_.
     io_bind (read_dr T 32) (\<lambda>dr_data_bits.
       io_return (Data (DR_DATA_from_bitarray dr_data_bits))))) h1"
    unfolding h1
    by (simp add: bind_return bind_write_ir [OF ok] bind_write_dr [OF ok])
  finally show ?thesis .
qed

lemma data_of_shifted:
  "port_ok T \<Longrightarrow> Data (DR_DATA_from_bitarray (shifted T h 32)) = nat_of_bits (shifted T h 32)"
  by (simp add: DR_DATA_from_bitarray_def port_ok_def)

lemma write_run:
  assumes ok: "port_ok T"
    and sp: "(space, cmd) \<in> {(''memory'', DR_TXN_COMMAND_WRITE_MEMORY A),
                             (''core'', DR_TXN_COMMAND_WRITE_CORE A),
                             (''aux'', DR_TXN_COMMAND_WRITE_AUX A)}"
  shows "write_op A T address data space h =
     wait_txn A T (h @ [Write_IR (IR_ADDRESS A),
                        Write_DR (DR_ADDRESS_to_bitarray \<lparr>Address = address\<rparr>),
                        Write_IR (IR_DATA A),
                        Write_DR (DR_DATA_to_bitarray \<lparr>Data = data\<rparr>),
                        Write_IR (IR_TXN_COMMAND A), Write_DR cmd])"
proof -
  have "write_op A T address data space h =
     io_bind (io_return cmd) (\<lambda>dr_txn_command.
     io_bind (write_ir T (IR_ADDRESS A)) (\<lambda>_.
     io_bind (write_dr T (DR_ADDRESS_to_bitarray \<lparr>Address = address\<rparr>)) (\<lambda>_.
     io_bind (write_ir T (IR_DATA A)) (\<lambda>_.
     io_bind (write_dr T (DR_DATA_to_bitarray \<lparr>Data = data\<rparr>)) (\<lambda>_.
     io_bind (write_ir T (IR_TXN_COMMAND A)) (\<lambda>_.
     io_bind (write_dr T dr_txn_command) (\<lambda>_.
     wait_txn A T))))))) h"
    using sp by (auto simp: write_op_def Let_def)
  also have "\<dots> = wait_txn A T (h @ [Write_IR (IR_ADDRESS A),
                        Write_DR (DR_ADDRESS_to_bitarray \<lparr>Address = address\<rparr>),
                        Write_IR (IR_DATA A),
                        Write_DR (DR_DATA_to_bitarray \<lparr>Data = data\<rparr>),
                        Write_IR (IR_TXN_COMMAND A), Write_DR cmd])"
    by (simp add: bind_return bind_write_ir [OF ok] bind_write_dr [OF ok])
  finally show ?thesis .
qed

subsection \<open>Requests of a run, and the simulated port\<close>

lemma port_ok_sim_port: "port_ok (sim_port script word)"
  by (auto simp: port_ok_def shifted_def sim_port_def length_bits_of_nat split: request.splits)

lemma ir_selections_append: "ir_selections (xs @ ys) = ir_selections xs @ ir_selections ys"
  by (induction xs rule: ir_selections.induct) simp_all

lemma ir_selections_polls: "ir_selections (replicate k (Read_DR n)) = []"
  by (induction k) simp_all

lemma dr_shifts_append: "dr_shifts (xs @ ys) = dr_shifts xs @ dr_shifts ys"
  by (induction xs rule: dr_shifts.induct) simp_all

lemma dr_shifts_polls: "dr_shifts (replicate k (Read_DR n)) = replicate k (Read_DR n)"
  by (induction k) simp_all

lemma status_at_sim_port:
  "filter (\<lambda>q. q = Read_DR 4) h = [] \<Longrightarrow>
   status_at sample_arch (sim_port script word) h j = sample_status (bits_of_nat 4 (script j))"
  by (simp add: status_at_def shifted_def sim_port_def sample_arch_def)

lemma sample_status_4: "sample_status (bits_of_nat 4 v) = \<lparr>FL = odd (v mod 16 div 2), RD = odd (v mod 16 div 4)\<rparr>"
  by (simp add: sample_status_def nat_of_bits_of_nat)

lemma shifted_sim_port_word:
  "n \<noteq> 4 \<Longrightarrow> shifted (sim_port script word) h n = bits_of_nat n word"
  by (simp add: shifted_def sim_port_def)

subsection \<open>Field extraction, and runs of read and write\<close>

lemma drop_bits_of_nat: "drop i (bits_of_nat n v) = bits_of_nat (n - i) (v div 2 ^ i)"
proof (induction i arbitrary: n v)
  case 0
  then show ?case by simp
next
  case (Suc i)
  show ?case
  proof (cases n)
    case 0
    then show ?thesis by simp
  next
    case (Suc m)
    have "v div 2 div 2 ^ i = v div (2 * 2 ^ i)" by (simp add: div_mult2_eq)
    with Suc Suc.IH [of m "v div 2"] show ?thesis by simp
  qed
qed

lemma take_bits_of_nat: "k \<le> n \<Longrightarrow> take k (bits_of_nat n v) = bits_of_nat k v"
proof (induction k arbitrary: n v)
  case 0
  then show ?case by simp
next
  case (Suc k)
  then obtain m where "n = Suc m" by (cases n) auto
  with Suc show ?case by simp
qed

lemma sample_idcode_32:
  "sample_idcode (bits_of_nat 32 v) =
     \<lparr>mfg_id = v div 2 mod 2048, part_id = v div 4096 mod 65536,
      version = v div 268435456 mod 16\<rparr>"
  by (simp add: sample_idcode_def drop_bits_of_nat take_bits_of_nat nat_of_bits_of_nat)

lemma write_polls:
  assumes ok: "port_ok T"
    and sp: "(space, cmd) \<in> {(''memory'', DR_TXN_COMMAND_WRITE_MEMORY A),
                             (''core'', DR_TXN_COMMAND_WRITE_CORE A),
                             (''aux'', DR_TXN_COMMAND_WRITE_AUX A)}"
    and h1: "h1 = h @ [Write_IR (IR_ADDRESS A),
                       Write_DR (DR_ADDRESS_to_bitarray \<lparr>Address = address\<rparr>),
                       Write_IR (IR_DATA A),
                       Write_DR (DR_DATA_to_bitarray \<lparr>Data = data\<rparr>),
                       Write_IR (IR_TXN_COMMAND A), Write_DR cmd,
                       Write_IR (IR_STATUS A)]"
    and quiet: "\<forall>j<n. \<not> RD (status_at A T h1 j) \<and> \<not> FL (status_at A T h1 j)"
    and fin: "RD (status_at A T h1 n) \<or> FL (status_at A T h1 n)"
  shows "write_op A T address data space h =
     Some (if FL (status_at A T h1 n)
           then Inl (GlasgowAppletError ''transaction failed'') else Inr (),
           h1 @ replicate (Suc n) (Read_DR 4))"
proof -
  let ?h0 = "h @ [Write_IR (IR_ADDRESS A),
                  Write_DR (DR_ADDRESS_to_bitarray \<lparr>Address = address\<rparr>),
                  Write_IR (IR_DATA A),
                  Write_DR (DR_DATA_to_bitarray \<lparr>Data = data\<rparr>),
                  Write_IR (IR_TXN_COMMAND A), Write_DR cmd]"
  have e: "h1 = ?h0 @ [Write_IR (IR_STATUS A)]" by (simp add: h1)
  have "write_op A T address data space h = wait_txn A T ?h0"
    by (rule write_run [OF ok sp])
  also have "\<dots> = Some (if FL (status_at A T h1 n)
           then Inl (GlasgowAppletError ''transaction failed'') else Inr (),
           h1 @ replicate (Suc n) (Read_DR 4))"
    using wait_txn_run [OF ok, of n A ?h0] quiet fin unfolding e by simp
  finally show ?thesis .
qed

lemma read_polls_fail:
  assumes ok: "port_ok T"
    and sp: "(space, cmd) \<in> {(''memory'', DR_TXN_COMMAND_READ_MEMORY A),
                             (''core'', DR_TXN_COMMAND_READ_CORE A),
                             (''aux'', DR_TXN_COMMAND_READ_AUX A)}"
    and h1: "h1 = h @ [Write_IR (IR_ADDRESS A),
                       Write_DR (DR_ADDRESS_to_bitarray \<lparr>Address = address\<rparr>),
                       Write_IR (IR_TXN_COMMAND A), Write_DR cmd,
                       Write_IR (IR_STATUS A)]"
    and quiet: "\<forall>j<n. \<not> RD (status_at A T h1 j) \<and> \<not> FL (status_at A T h1 j)"
    and fl: "FL (status_at A T h1 n)"
  shows "read A T address space h =
     Some (Inl (GlasgowAppletError ''transaction failed''), h1 @ replicate (Suc n) (Read_DR 4))"
proof -
  let ?h0 = "h @ [Write_IR (IR_ADDRESS A),
                  Write_DR (DR_ADDRESS_to_bitarray \<lparr>Address = address\<rparr>),
                  Write_IR (IR_TXN_COMMAND A), Write_DR cmd]"
  have e: "h1 = ?h0 @ [Write_IR (IR_STATUS A)]" by (simp add: h1)
  have w: "wait_txn A T ?h0 =
     Some (Inl (GlasgowAppletError ''transaction failed''), h1 @ replicate (Suc n) (Read_DR 4))"
    using wait_txn_run [OF ok, of n A ?h0] quiet fl unfolding e by simp
  have "read A T address space h =
     io_bind (wait_txn A T) (\<lambda>_.
     io_bind (write_ir T (IR_DATA A)) (\<lambda>_.
     io_bind (read_dr T 32) (\<lambda>dr_data_bits.
       io_return (Data (DR_DATA_from_bitarray dr_data_bits))))) ?h0"
    by (rule read_run [OF ok sp]) simp
  also have "\<dots> =
     Some (Inl (GlasgowAppletError ''transaction failed''), h1 @ replicate (Suc n) (Read_DR 4))"
    using w by (simp add: io_bind_def)
  finally show ?thesis .
qed

lemma io_bind_SomeD:
  assumes "io_bind m f h = Some y"
  shows "(\<exists>e h1. m h = Some (Inl e, h1) \<and> y = (Inl e, h1))
       \<or> (\<exists>x h1. m h = Some (Inr x, h1) \<and> f x h1 = Some y)"
  using assms by (auto simp: io_bind_def split: option.splits sum.splits)

lemma read_polls_once:
  assumes ok: "port_ok T"
    and sp: "space \<in> {''memory'', ''core'', ''aux''}"
    and ret: "read A T address space h = Some (r, h')"
  shows "Read_DR 4 \<in> set (drop (length h) h')"
proof -
  from sp obtain cmd where pair:
    "(space, cmd) \<in> {(''memory'', DR_TXN_COMMAND_READ_MEMORY A),
                     (''core'', DR_TXN_COMMAND_READ_CORE A),
                     (''aux'', DR_TXN_COMMAND_READ_AUX A)}"
    by auto
  let ?h0 = "h @ [Write_IR (IR_ADDRESS A),
                  Write_DR (DR_ADDRESS_to_bitarray \<lparr>Address = address\<rparr>),
                  Write_IR (IR_TXN_COMMAND A), Write_DR cmd]"
  let ?rest = "\<lambda>_::unit. io_bind (write_ir T (IR_DATA A)) (\<lambda>_.
     io_bind (read_dr T 32) (\<lambda>dr_data_bits.
       io_return (Data (DR_DATA_from_bitarray dr_data_bits))))"
  have "io_bind (wait_txn A T) ?rest ?h0 = Some (r, h')"
    using read_run [OF ok pair refl, where h = h and address = address] ret by simp
  from io_bind_SomeD [OF this] obtain r1 hh where
    w: "wait_txn A T ?h0 = Some (r1, hh)"
    and c: "h' = hh \<or> ?rest () hh = Some (r, h')"
    by auto
  have sel: "T ?h0 (Write_IR (IR_STATUS A)) \<noteq> None" using ok by (simp add: port_ok_def)
  from wait_txn_returns [OF w sel] obtain k where
    hh: "hh = ?h0 @ Write_IR (IR_STATUS A) # replicate (Suc k) (Read_DR 4)" by blast
  have "h' = hh \<or> h' = hh @ [Write_IR (IR_DATA A), Read_DR 32]"
    using c
    by (auto simp: io_bind_def write_ir_ok [OF ok] read_dr_ok [OF ok] io_return_def)
  with hh show ?thesis by auto
qed

lemma write_polls_once:
  assumes ok: "port_ok T"
    and sp: "space \<in> {''memory'', ''core'', ''aux''}"
    and ret: "write_op A T address data space h = Some (r, h')"
  shows "Read_DR 4 \<in> set (drop (length h) h')"
proof -
  from sp obtain cmd where pair:
    "(space, cmd) \<in> {(''memory'', DR_TXN_COMMAND_WRITE_MEMORY A),
                     (''core'', DR_TXN_COMMAND_WRITE_CORE A),
                     (''aux'', DR_TXN_COMMAND_WRITE_AUX A)}"
    by auto
  let ?h0 = "h @ [Write_IR (IR_ADDRESS A),
                  Write_DR (DR_ADDRESS_to_bitarray \<lparr>Address = address\<rparr>),
                  Write_IR (IR_DATA A),
                  Write_DR (DR_DATA_to_bitarray \<lparr>Data = data\<rparr>),
                  Write_IR (IR_TXN_COMMAND A), Write_DR cmd]"
  have w: "wait_txn A T ?h0 = Some (r, h')"
    using write_run [OF ok pair, where h = h and address = address and data = data] ret
    by simp
  have sel: "T ?h0 (Write_IR (IR_STATUS A)) \<noteq> None" using ok by (simp add: port_ok_def)
  from wait_txn_returns [OF w sel] show ?thesis by auto
qed

subsection \<open>The first poll of a polling phase\<close>

lemma wait_txn_selected:
  assumes "T h (Write_IR (IR_STATUS A)) \<noteq> None"
  shows "wait_txn A T h = wait_loop A T DR_STATUS_new (h @ [Write_IR (IR_STATUS A)])"
  using assms by (auto simp: wait_txn_def io_bind_def write_ir_def split: option.splits)

lemma wait_loop_first_poll:
  assumes "\<not> RD s"
  shows "wait_loop A T s h =
     io_bind (read_dr T 4) (\<lambda>status_bits.
       if FL (DR_STATUS_from_bitarray A status_bits)
       then io_raise (GlasgowAppletError ''transaction failed'')
       else wait_loop A T (DR_STATUS_from_bitarray A status_bits)) h"
  using assms
  by (subst wait_loop.simps)
     (auto simp: io_bind_def io_raise_def Let_def split: option.splits sum.splits)

lemma wait_loop_None_iff:
  assumes nrd: "\<not> RD s"
  shows "wait_loop A T s h = None \<longleftrightarrow> (\<forall>j. poll A T h j = None)"
proof
  assume none: "wait_loop A T s h = None"
  show "\<forall>j. poll A T h j = None"
  proof (rule ccontr)
    assume "\<not> (\<forall>j. poll A T h j = None)"
    then have "\<exists>j. poll A T h j \<noteq> None" by simp
    then obtain k where k: "poll A T h k \<noteq> None" "\<forall>j<k. \<not> poll A T h j \<noteq> None"
      using exists_least_iff [of "\<lambda>j. poll A T h j \<noteq> None"] by blast
    then obtain r where "poll A T h k = Some r" by auto
    from wait_loop_finish [OF nrd _ this] k(2) none show False by simp
  qed
next
  assume "\<forall>j. poll A T h j = None"
  with nrd show "wait_loop A T s h = None" by (rule wait_loop_diverges)
qed

lemma wait_loop_Some_iff:
  assumes nrd: "\<not> RD s"
  shows "wait_loop A T s h = Some (r, h') \<longleftrightarrow>
     (\<exists>k. (\<forall>j<k. poll A T h j = None) \<and> poll A T h k = Some r
          \<and> h' = h @ replicate (Suc k) (Read_DR 4))"
proof
  assume "wait_loop A T s h = Some (r, h')"
  from wait_loop_returns [OF this] nrd
  show "\<exists>k. (\<forall>j<k. poll A T h j = None) \<and> poll A T h k = Some r
          \<and> h' = h @ replicate (Suc k) (Read_DR 4)"
    by simp
next
  assume "\<exists>k. (\<forall>j<k. poll A T h j = None) \<and> poll A T h k = Some r
          \<and> h' = h @ replicate (Suc k) (Read_DR 4)"
  then obtain k where "\<forall>j<k. poll A T h j = None" "poll A T h k = Some r"
    "h' = h @ replicate (Suc k) (Read_DR 4)" by blast
  with wait_loop_finish [OF nrd, of k A T h r] show "wait_loop A T s h = Some (r, h')"
    by simp
qed

lemma status_at_0: "status_at A T h 0 = DR_STATUS_from_bitarray A (shifted T h 4)"
  by (simp add: status_at_def)

lemma read_first_poll:
  assumes ok: "port_ok T"
    and sp: "(space, cmd) \<in> {(''memory'', DR_TXN_COMMAND_READ_MEMORY A),
                             (''core'', DR_TXN_COMMAND_READ_CORE A),
                             (''aux'', DR_TXN_COMMAND_READ_AUX A)}"
    and h1: "h1 = h @ [Write_IR (IR_ADDRESS A),
                       Write_DR (DR_ADDRESS_to_bitarray \<lparr>Address = address\<rparr>),
                       Write_IR (IR_TXN_COMMAND A), Write_DR cmd,
                       Write_IR (IR_STATUS A)]"
  shows "read A T address space h =
     (if FL (status_at A T h1 0)
      then Some (Inl (GlasgowAppletError ''transaction failed''), h1 @ [Read_DR 4])
      else io_bind (wait_loop A T (status_at A T h1 0)) (\<lambda>_.
           io_bind (write_ir T (IR_DATA A)) (\<lambda>_.
           io_bind (read_dr T 32) (\<lambda>dr_data_bits.
             io_return (Data (DR_DATA_from_bitarray dr_data_bits))))) (h1 @ [Read_DR 4]))"
proof -
  let ?h0 = "h @ [Write_IR (IR_ADDRESS A),
                  Write_DR (DR_ADDRESS_to_bitarray \<lparr>Address = address\<rparr>),
                  Write_IR (IR_TXN_COMMAND A), Write_DR cmd]"
  have e: "h1 = ?h0 @ [Write_IR (IR_STATUS A)]" by (simp add: h1)
  have sel: "T ?h0 (Write_IR (IR_STATUS A)) \<noteq> None" using ok by (simp add: port_ok_def)
  have nrd: "\<not> RD DR_STATUS_new" by (simp add: DR_STATUS_new_def)
  have w: "wait_txn A T ?h0 =
     (if FL (status_at A T h1 0)
      then Some (Inl (GlasgowAppletError ''transaction failed''), h1 @ [Read_DR 4])
      else wait_loop A T (status_at A T h1 0) (h1 @ [Read_DR 4]))"
  proof -
    have "wait_txn A T ?h0 = wait_loop A T DR_STATUS_new h1"
      using wait_txn_selected [where T = T and h = ?h0 and A = A] sel e by simp
    also have "\<dots> = io_bind (read_dr T 4) (\<lambda>status_bits.
         if FL (DR_STATUS_from_bitarray A status_bits)
         then io_raise (GlasgowAppletError ''transaction failed'')
         else wait_loop A T (DR_STATUS_from_bitarray A status_bits)) h1"
      by (rule wait_loop_first_poll [OF nrd])
    also have "\<dots> = (if FL (status_at A T h1 0)
        then Some (Inl (GlasgowAppletError ''transaction failed''), h1 @ [Read_DR 4])
        else wait_loop A T (status_at A T h1 0) (h1 @ [Read_DR 4]))"
      by (simp add: io_bind_def read_dr_ok [OF ok] status_at_0 io_raise_def)
    finally show ?thesis .
  qed
  have "read A T address space h =
     io_bind (wait_txn A T) (\<lambda>_.
     io_bind (write_ir T (IR_DATA A)) (\<lambda>_.
     io_bind (read_dr T 32) (\<lambda>dr_data_bits.
       io_return (Data (DR_DATA_from_bitarray dr_data_bits))))) ?h0"
    using read_run [OF ok sp refl, where h = h and address = address] by simp
  then show ?thesis
    using w by (simp add: io_bind_def [of "wait_txn A T"]
                  io_bind_def [of "wait_loop A T (status_at A T h1 0)"])
qed

lemma write_first_poll:
  assumes ok: "port_ok T"
    and sp: "(space, cmd) \<in> {(''memory'', DR_TXN_COMMAND_WRITE_MEMORY A),
                             (''core'', DR_TXN_COMMAND_WRITE_CORE A),
                             (''aux'', DR_TXN_COMMAND_WRITE_AUX A)}"
    and h1: "h1 = h @ [Write_IR (IR_ADDRESS A),
                       Write_DR (DR_ADDRESS_to_bitarray \<lparr>Address = address\<rparr>),
                       Write_IR (IR_DATA A),
                       Write_DR (DR_DATA_to_bitarray \<lparr>Data = data\<rparr>),
                       Write_IR (IR_TXN_COMMAND A), Write_DR cmd,
                       Write_IR (IR_STATUS A)]"
  shows "write_op A T address data space h =
     (if FL (status_at A T h1 0)
      then Some (Inl (GlasgowAppletError ''transaction failed''), h1 @ [Read_DR 4])
      else wait_loop A T (status_at A T h1 0) (h1 @ [Read_DR 4]))"
proof -
  let ?h0 = "h @ [Write_IR (IR_ADDRESS A),
                  Write_DR (DR_ADDRESS_to_bitarray \<lparr>Address = address\<rparr>),
                  Write_IR (IR_DATA A),
                  Write_DR (DR_DATA_to_bitarray \<lparr>Data = data\<rparr>),
                  Write_IR (IR_TXN_COMMAND A), Write_DR cmd]"
  have e: "h1 = ?h0 @ [Write_IR (IR_STATUS A)]" by (simp add: h1)
  have sel: "T ?h0 (Write_IR (IR_STATUS A)) \<noteq> None" using ok by (simp add: port_ok_def)
  have nrd: "\<not> RD DR_STATUS_new" by (simp add: DR_STATUS_new_def)
  have w: "wait_txn A T ?h0 =
     (if FL (status_at A T h1 0)
      then Some (Inl (GlasgowAppletError ''transaction failed''), h1 @ [Read_DR 4])
      else wait_loop A T (status_at A T h1 0) (h1 @ [Read_DR 4]))"
  proof -
    have "wait_txn A T ?h0 = wait_loop A T DR_STATUS_new h1"
      using wait_txn_selected [where T = T and h = ?h0 and A = A] sel e by simp
    also have "\<dots> = io_bind (read_dr T 4) (\<lambda>status_bits.
         if FL (DR_STATUS_from_bitarray A status_bits)
         then io_raise (GlasgowAppletError ''transaction failed'')
         else wait_loop A T (DR_STATUS_from_bitarray A status_bits)) h1"
      by (rule wait_loop_first_poll [OF nrd])
    also have "\<dots> = (if FL (status_at A T h1 0)
        then Some (Inl (GlasgowAppletError ''transaction failed''), h1 @ [Read_DR 4])
        else wait_loop A T (status_at A T h1 0) (h1 @ [Read_DR 4]))"
      by (simp add: io_bind_def read_dr_ok [OF ok] status_at_0 io_raise_def)
    finally show ?thesis .
  qed
  show ?thesis
    using write_run [OF ok sp, where h = h and address = address and data = data] w
    by simp
qed

section \<open>The claims\<close>

text \<open>
  C1. For every 32-bit address and the space \<^verbatim>\<open>"memory"\<close>, over a port in order whose
  polls show neither \<^verbatim>\<open>RD\<close> nor \<^verbatim>\<open>FL\<close> until one shows \<^verbatim>\<open>RD\<close> without \<^verbatim>\<open>FL\<close>, \<^verbatim>\<open>read\<close> issues
  exactly these requests: select ADDRESS, shift out the encoded address, select
  TXN_COMMAND, shift out the READ_MEMORY opcode, select STATUS, the polls, select DATA,
  one read of 32 bits. It returns the \<^verbatim>\<open>Data\<close> field decoded from that read, which is the
  number the port shifted out. The instruction register selections are ADDRESS,
  TXN_COMMAND, STATUS, DATA in this order.
\<close>

theorem read_memory_returns_data:
  fixes A :: arch and T :: lower and address n :: nat and h :: "request list"
  defines "h1 \<equiv> h @ [Write_IR (IR_ADDRESS A),
                      Write_DR (DR_ADDRESS_to_bitarray \<lparr>Address = address\<rparr>),
                      Write_IR (IR_TXN_COMMAND A),
                      Write_DR (DR_TXN_COMMAND_READ_MEMORY A),
                      Write_IR (IR_STATUS A)]"
  defines "h2 \<equiv> h1 @ replicate (Suc n) (Read_DR 4) @ [Write_IR (IR_DATA A)]"
  assumes ok: "port_ok T"
    and addr: "address < 2 ^ 32"
    and quiet: "\<forall>j<n. \<not> RD (status_at A T h1 j) \<and> \<not> FL (status_at A T h1 j)"
    and ready: "RD (status_at A T h1 n)" "\<not> FL (status_at A T h1 n)"
  shows "read A T address ''memory'' h =
           Some (Inr (Data (DR_DATA_from_bitarray (shifted T h2 32))), h2 @ [Read_DR 32])
       \<and> Data (DR_DATA_from_bitarray (shifted T h2 32)) = nat_of_bits (shifted T h2 32)
       \<and> length (shifted T h2 32) = 32
       \<and> DR_ADDRESS_from_bitarray (DR_ADDRESS_to_bitarray \<lparr>Address = address\<rparr>)
           = \<lparr>Address = address\<rparr>
       \<and> ir_selections (drop (length h) (h2 @ [Read_DR 32]))
           = [IR_ADDRESS A, IR_TXN_COMMAND A, IR_STATUS A, IR_DATA A]"
proof -
  let ?h0 = "h @ [Write_IR (IR_ADDRESS A),
                  Write_DR (DR_ADDRESS_to_bitarray \<lparr>Address = address\<rparr>),
                  Write_IR (IR_TXN_COMMAND A),
                  Write_DR (DR_TXN_COMMAND_READ_MEMORY A)]"
  have h1: "h1 = ?h0 @ [Write_IR (IR_STATUS A)]" by (simp add: h1_def)
  have w: "wait_txn A T ?h0 = Some (Inr (), h1 @ replicate (Suc n) (Read_DR 4))"
    using wait_txn_run [OF ok, of n A ?h0] quiet ready unfolding h1 by simp
  have "read A T address ''memory'' h =
     io_bind (wait_txn A T) (\<lambda>_.
     io_bind (write_ir T (IR_DATA A)) (\<lambda>_.
     io_bind (read_dr T 32) (\<lambda>dr_data_bits.
       io_return (Data (DR_DATA_from_bitarray dr_data_bits))))) ?h0"
    by (rule read_run [OF ok]) simp_all
  also have "\<dots> = Some (Inr (Data (DR_DATA_from_bitarray (shifted T h2 32))), h2 @ [Read_DR 32])"
    using w
    by (simp add: io_bind_def write_ir_ok [OF ok] read_dr_ok [OF ok] io_return_def h2_def)
  finally have run: "read A T address ''memory'' h =
     Some (Inr (Data (DR_DATA_from_bitarray (shifted T h2 32))), h2 @ [Read_DR 32])" .
  have len: "length (shifted T h2 32) = 32" using ok by (simp add: port_ok_def)
  have irs: "ir_selections (drop (length h) (h2 @ [Read_DR 32]))
               = [IR_ADDRESS A, IR_TXN_COMMAND A, IR_STATUS A, IR_DATA A]"
    by (simp add: h2_def h1_def ir_selections_append ir_selections_polls)
  show ?thesis
    using run len irs data_of_shifted [OF ok] address_round_trip [OF addr] by simp
qed

theorem read_memory_returns_data_witness:
  "read sample_arch (sim_port (\<lambda>j. 4) 0xDEADBEEF) 0x1000 ''memory'' [] =
     Some (Inr 0xDEADBEEF,
           [Write_IR (IR_ADDRESS sample_arch),
            Write_DR (DR_ADDRESS_to_bitarray \<lparr>Address = 0x1000\<rparr>),
            Write_IR (IR_TXN_COMMAND sample_arch),
            Write_DR (DR_TXN_COMMAND_READ_MEMORY sample_arch),
            Write_IR (IR_STATUS sample_arch),
            Read_DR 4,
            Write_IR (IR_DATA sample_arch),
            Read_DR 32])"
proof -
  let ?T = "sim_port (\<lambda>j. 4) 0xDEADBEEF"
  let ?h1 = "[] @ [Write_IR (IR_ADDRESS sample_arch),
            Write_DR (DR_ADDRESS_to_bitarray \<lparr>Address = 0x1000\<rparr>),
            Write_IR (IR_TXN_COMMAND sample_arch),
            Write_DR (DR_TXN_COMMAND_READ_MEMORY sample_arch),
            Write_IR (IR_STATUS sample_arch)]"
  have ok: "port_ok ?T" by (rule port_ok_sim_port)
  have addr: "(0x1000::nat) < 2 ^ 32" by simp
  have quiet: "\<forall>j<0. \<not> RD (status_at sample_arch ?T ?h1 j) \<and> \<not> FL (status_at sample_arch ?T ?h1 j)"
    by simp
  have rd: "RD (status_at sample_arch ?T ?h1 0)"
    by (simp add: status_at_sim_port sample_status_4)
  have fl: "\<not> FL (status_at sample_arch ?T ?h1 0)"
    by (simp add: status_at_sim_port sample_status_4)
  show ?thesis
    using read_memory_returns_data [OF ok addr quiet rd fl]
    by (simp add: shifted_sim_port_word nat_of_bits_of_nat)
qed

text \<open>
  C2. For every 32-bit address, every 32-bit data value and each of the spaces
  \<^verbatim>\<open>"memory"\<close>, \<^verbatim>\<open>"core"\<close>, \<^verbatim>\<open>"aux"\<close> with its \<^verbatim>\<open>WRITE_*\<close> opcode, over a port in order whose
  poll number \<open>n\<close> is the first to show \<^verbatim>\<open>RD\<close> or \<^verbatim>\<open>FL\<close>, \<^verbatim>\<open>write\<close> shifts the data register in
  this order: the encoded address, the encoded data, the opcode, then the \<open>n + 1\<close> status
  polls. When that poll shows no \<^verbatim>\<open>FL\<close> the call returns no value.
\<close>

theorem write_issues_shifts_in_order:
  fixes A :: arch and T :: lower and address data n :: nat and h :: "request list"
    and space :: string and opcode :: bits
  defines "h1 \<equiv> h @ [Write_IR (IR_ADDRESS A),
                      Write_DR (DR_ADDRESS_to_bitarray \<lparr>Address = address\<rparr>),
                      Write_IR (IR_DATA A),
                      Write_DR (DR_DATA_to_bitarray \<lparr>Data = data\<rparr>),
                      Write_IR (IR_TXN_COMMAND A), Write_DR opcode,
                      Write_IR (IR_STATUS A)]"
  assumes ok: "port_ok T"
    and addr: "address < 2 ^ 32" and dat: "data < 2 ^ 32"
    and sp: "(space, opcode) \<in> {(''memory'', DR_TXN_COMMAND_WRITE_MEMORY A),
                                (''core'', DR_TXN_COMMAND_WRITE_CORE A),
                                (''aux'', DR_TXN_COMMAND_WRITE_AUX A)}"
    and quiet: "\<forall>j<n. \<not> RD (status_at A T h1 j) \<and> \<not> FL (status_at A T h1 j)"
    and fin: "RD (status_at A T h1 n) \<or> FL (status_at A T h1 n)"
  shows "write_op A T address data space h =
           Some (if FL (status_at A T h1 n)
                 then Inl (GlasgowAppletError ''transaction failed'') else Inr (),
                 h1 @ replicate (Suc n) (Read_DR 4))
       \<and> dr_shifts (drop (length h) (h1 @ replicate (Suc n) (Read_DR 4))) =
           [Write_DR (DR_ADDRESS_to_bitarray \<lparr>Address = address\<rparr>),
            Write_DR (DR_DATA_to_bitarray \<lparr>Data = data\<rparr>),
            Write_DR opcode] @ replicate (Suc n) (Read_DR 4)
       \<and> DR_ADDRESS_from_bitarray (DR_ADDRESS_to_bitarray \<lparr>Address = address\<rparr>)
           = \<lparr>Address = address\<rparr>
       \<and> DR_DATA_from_bitarray (DR_DATA_to_bitarray \<lparr>Data = data\<rparr>) = \<lparr>Data = data\<rparr>"
proof -
  have run: "write_op A T address data space h =
           Some (if FL (status_at A T h1 n)
                 then Inl (GlasgowAppletError ''transaction failed'') else Inr (),
                 h1 @ replicate (Suc n) (Read_DR 4))"
    using write_polls [OF ok sp _ _ fin] quiet by (simp add: h1_def)
  have shifts: "dr_shifts (drop (length h) (h1 @ replicate (Suc n) (Read_DR 4))) =
           [Write_DR (DR_ADDRESS_to_bitarray \<lparr>Address = address\<rparr>),
            Write_DR (DR_DATA_to_bitarray \<lparr>Data = data\<rparr>),
            Write_DR opcode] @ replicate (Suc n) (Read_DR 4)"
    by (simp add: h1_def dr_shifts_append dr_shifts_polls)
  show ?thesis
    using run shifts address_round_trip [OF addr] data_round_trip [OF dat] by simp
qed

theorem write_issues_shifts_in_order_witness:
  "write_op sample_arch (sim_port (\<lambda>j. 4) 0) 0x1000 0xCAFE ''core'' [] =
     Some (Inr (),
           [Write_IR (IR_ADDRESS sample_arch),
            Write_DR (DR_ADDRESS_to_bitarray \<lparr>Address = 0x1000\<rparr>),
            Write_IR (IR_DATA sample_arch),
            Write_DR (DR_DATA_to_bitarray \<lparr>Data = 0xCAFE\<rparr>),
            Write_IR (IR_TXN_COMMAND sample_arch),
            Write_DR (DR_TXN_COMMAND_WRITE_CORE sample_arch),
            Write_IR (IR_STATUS sample_arch),
            Read_DR 4])"
proof -
  let ?T = "sim_port (\<lambda>j. 4) 0"
  let ?h1 = "[] @ [Write_IR (IR_ADDRESS sample_arch),
            Write_DR (DR_ADDRESS_to_bitarray \<lparr>Address = 0x1000\<rparr>),
            Write_IR (IR_DATA sample_arch),
            Write_DR (DR_DATA_to_bitarray \<lparr>Data = 0xCAFE\<rparr>),
            Write_IR (IR_TXN_COMMAND sample_arch),
            Write_DR (DR_TXN_COMMAND_WRITE_CORE sample_arch),
            Write_IR (IR_STATUS sample_arch)]"
  have ok: "port_ok ?T" by (rule port_ok_sim_port)
  have addr: "(0x1000::nat) < 2 ^ 32" and dat: "(0xCAFE::nat) < 2 ^ 32" by simp_all
  have sp: "(''core'', DR_TXN_COMMAND_WRITE_CORE sample_arch) \<in>
              {(''memory'', DR_TXN_COMMAND_WRITE_MEMORY sample_arch),
               (''core'', DR_TXN_COMMAND_WRITE_CORE sample_arch),
               (''aux'', DR_TXN_COMMAND_WRITE_AUX sample_arch)}" by simp
  have quiet: "\<forall>j<0. \<not> RD (status_at sample_arch ?T ?h1 j) \<and> \<not> FL (status_at sample_arch ?T ?h1 j)"
    by simp
  have st: "RD (status_at sample_arch ?T ?h1 0)" "\<not> FL (status_at sample_arch ?T ?h1 0)"
    by (simp_all add: status_at_sim_port sample_status_4)
  have fin: "RD (status_at sample_arch ?T ?h1 0) \<or> FL (status_at sample_arch ?T ?h1 0)"
    using st by simp
  show ?thesis
    using write_issues_shifts_in_order [OF ok addr dat sp quiet fin] st by simp
qed

text \<open>
  C3. Over a port in order, when a poll of \<^verbatim>\<open>read\<close> or of \<^verbatim>\<open>write\<close> shows \<^verbatim>\<open>FL\<close>, the polls
  before it (if any) having shown neither \<^verbatim>\<open>RD\<close> nor \<^verbatim>\<open>FL\<close>, the call raises
  \<^verbatim>\<open>GlasgowAppletError("transaction failed")\<close>, which is not a transport error, and the
  failing poll is the last request it makes. A failed \<^verbatim>\<open>read\<close> has selected ADDRESS,
  TXN_COMMAND and STATUS only, and has made no read of 32 bits. The first poll is the
  case \<open>n = 0\<close>.
\<close>

theorem failed_poll_aborts:
  fixes A :: arch and T :: lower and address data n m :: nat and h :: "request list"
    and rspace wspace :: string and rcmd wcmd :: bits
  defines "hr \<equiv> h @ [Write_IR (IR_ADDRESS A),
                      Write_DR (DR_ADDRESS_to_bitarray \<lparr>Address = address\<rparr>),
                      Write_IR (IR_TXN_COMMAND A), Write_DR rcmd,
                      Write_IR (IR_STATUS A)]"
  defines "hw \<equiv> h @ [Write_IR (IR_ADDRESS A),
                      Write_DR (DR_ADDRESS_to_bitarray \<lparr>Address = address\<rparr>),
                      Write_IR (IR_DATA A),
                      Write_DR (DR_DATA_to_bitarray \<lparr>Data = data\<rparr>),
                      Write_IR (IR_TXN_COMMAND A), Write_DR wcmd,
                      Write_IR (IR_STATUS A)]"
  assumes ok: "port_ok T"
    and rsp: "(rspace, rcmd) \<in> {(''memory'', DR_TXN_COMMAND_READ_MEMORY A),
                               (''core'', DR_TXN_COMMAND_READ_CORE A),
                               (''aux'', DR_TXN_COMMAND_READ_AUX A)}"
    and wsp: "(wspace, wcmd) \<in> {(''memory'', DR_TXN_COMMAND_WRITE_MEMORY A),
                               (''core'', DR_TXN_COMMAND_WRITE_CORE A),
                               (''aux'', DR_TXN_COMMAND_WRITE_AUX A)}"
  shows "((\<forall>j<n. \<not> RD (status_at A T hr j) \<and> \<not> FL (status_at A T hr j))
            \<and> FL (status_at A T hr n) \<longrightarrow>
          read A T address rspace h =
            Some (Inl (GlasgowAppletError ''transaction failed''),
                  hr @ replicate (Suc n) (Read_DR 4)))
       \<and> ((\<forall>j<m. \<not> RD (status_at A T hw j) \<and> \<not> FL (status_at A T hw j))
            \<and> FL (status_at A T hw m) \<longrightarrow>
          write_op A T address data wspace h =
            Some (Inl (GlasgowAppletError ''transaction failed''),
                  hw @ replicate (Suc m) (Read_DR 4)))
       \<and> GlasgowAppletError ''transaction failed'' \<noteq> TransportError
       \<and> Read_DR 32 \<notin> set (drop (length h) (hr @ replicate (Suc n) (Read_DR 4)))
       \<and> ir_selections (drop (length h) (hr @ replicate (Suc n) (Read_DR 4)))
           = [IR_ADDRESS A, IR_TXN_COMMAND A, IR_STATUS A]
       \<and> last (hr @ replicate (Suc n) (Read_DR 4)) = Read_DR 4
       \<and> last (hw @ replicate (Suc m) (Read_DR 4)) = Read_DR 4"
proof -
  have r: "(\<forall>j<n. \<not> RD (status_at A T hr j) \<and> \<not> FL (status_at A T hr j))
            \<and> FL (status_at A T hr n) \<longrightarrow>
          read A T address rspace h =
            Some (Inl (GlasgowAppletError ''transaction failed''),
                  hr @ replicate (Suc n) (Read_DR 4))"
    using read_polls_fail [OF ok rsp, of hr h address n] by (simp add: hr_def)
  have w: "(\<forall>j<m. \<not> RD (status_at A T hw j) \<and> \<not> FL (status_at A T hw j))
            \<and> FL (status_at A T hw m) \<longrightarrow>
          write_op A T address data wspace h =
            Some (Inl (GlasgowAppletError ''transaction failed''),
                  hw @ replicate (Suc m) (Read_DR 4))"
    using write_polls [OF ok wsp, of hw h address data m] by (simp add: hw_def)
  have no32: "Read_DR 32 \<notin> set (drop (length h) (hr @ replicate (Suc n) (Read_DR 4)))"
    by (simp add: hr_def)
  have irs: "ir_selections (drop (length h) (hr @ replicate (Suc n) (Read_DR 4)))
           = [IR_ADDRESS A, IR_TXN_COMMAND A, IR_STATUS A]"
    by (simp add: hr_def ir_selections_append ir_selections_polls)
  have l1: "last (hr @ replicate (Suc n) (Read_DR 4)) = Read_DR 4"
    by (simp add: last_append)
  have l2: "last (hw @ replicate (Suc m) (Read_DR 4)) = Read_DR 4"
    by (simp add: last_append)
  show ?thesis using r w no32 irs l1 l2 by simp
qed

theorem failed_poll_aborts_witness:
  "read sample_arch (sim_port (\<lambda>j. 2) 0xDEADBEEF) 0x1000 ''memory'' [] =
     Some (Inl (GlasgowAppletError ''transaction failed''),
           [Write_IR (IR_ADDRESS sample_arch),
            Write_DR (DR_ADDRESS_to_bitarray \<lparr>Address = 0x1000\<rparr>),
            Write_IR (IR_TXN_COMMAND sample_arch),
            Write_DR (DR_TXN_COMMAND_READ_MEMORY sample_arch),
            Write_IR (IR_STATUS sample_arch),
            Read_DR 4])
   \<and> write_op sample_arch (sim_port (\<lambda>j. 2) 0xDEADBEEF) 0x1000 0xCAFE ''aux'' [] =
     Some (Inl (GlasgowAppletError ''transaction failed''),
           [Write_IR (IR_ADDRESS sample_arch),
            Write_DR (DR_ADDRESS_to_bitarray \<lparr>Address = 0x1000\<rparr>),
            Write_IR (IR_DATA sample_arch),
            Write_DR (DR_DATA_to_bitarray \<lparr>Data = 0xCAFE\<rparr>),
            Write_IR (IR_TXN_COMMAND sample_arch),
            Write_DR (DR_TXN_COMMAND_WRITE_AUX sample_arch),
            Write_IR (IR_STATUS sample_arch),
            Read_DR 4])"
proof -
  let ?T = "sim_port (\<lambda>j. 2) 0xDEADBEEF"
  have ok: "port_ok ?T" by (rule port_ok_sim_port)
  have rsp: "(''memory'', DR_TXN_COMMAND_READ_MEMORY sample_arch) \<in>
              {(''memory'', DR_TXN_COMMAND_READ_MEMORY sample_arch),
               (''core'', DR_TXN_COMMAND_READ_CORE sample_arch),
               (''aux'', DR_TXN_COMMAND_READ_AUX sample_arch)}" by simp
  have wsp: "(''aux'', DR_TXN_COMMAND_WRITE_AUX sample_arch) \<in>
              {(''memory'', DR_TXN_COMMAND_WRITE_MEMORY sample_arch),
               (''core'', DR_TXN_COMMAND_WRITE_CORE sample_arch),
               (''aux'', DR_TXN_COMMAND_WRITE_AUX sample_arch)}" by simp
  show ?thesis
    using failed_poll_aborts [where T = ?T and A = sample_arch and address = "0x1000"
            and data = "0xCAFE" and n = 0 and m = 0 and h = "[]", OF ok rsp wsp]
    by (simp add: status_at_sim_port sample_status_4)
qed

text \<open>
  C4. When the port accepts the selection of IDCODE and answers the read of 32 bits with
  any 32 bits, \<^verbatim>\<open>identify\<close> issues exactly these two requests, decodes the bits as an
  IDCODE and returns it with what the catalog holds for its \<^verbatim>\<open>(mfg_id, part_id)\<close>; when
  the catalog holds nothing for that pair the result is the decoded IDCODE with no
  device, and no exception.
\<close>

theorem identify_returns_idcode:
  assumes sel: "T h (Write_IR (IR_IDCODE A)) \<noteq> None"
    and rd: "T (h @ [Write_IR (IR_IDCODE A)]) (Read_DR 32) = Some idcode_bits"
    and len: "length idcode_bits = 32"
  shows "identify A T h =
           Some (Inr (DR_IDCODE_from_bitarray A idcode_bits,
                      devices A (mfg_id (DR_IDCODE_from_bitarray A idcode_bits),
                                 part_id (DR_IDCODE_from_bitarray A idcode_bits))),
                 h @ [Write_IR (IR_IDCODE A), Read_DR 32])
       \<and> (devices A (mfg_id (DR_IDCODE_from_bitarray A idcode_bits),
                      part_id (DR_IDCODE_from_bitarray A idcode_bits)) = None \<longrightarrow>
            identify A T h =
              Some (Inr (DR_IDCODE_from_bitarray A idcode_bits, None),
                    h @ [Write_IR (IR_IDCODE A), Read_DR 32]))"
  using assms
  by (auto simp: identify_def io_bind_def write_ir_def read_dr_def io_return_def Let_def
           split: option.splits)

theorem identify_returns_idcode_witness:
  "identify sample_arch (sim_port (\<lambda>j. 4) 0xDEADBEEF) [] =
     Some (Inr (\<lparr>mfg_id = 0xDEADBEEF div 2 mod 2048, part_id = 0xDEADBEEF div 4096 mod 65536,
                 version = 0xDEADBEEF div 268435456 mod 16\<rparr>, None),
           [Write_IR (IR_IDCODE sample_arch), Read_DR 32])
   \<and> identify sample_arch (sim_port (\<lambda>j. 4) 9393) [] =
     Some (Inr (\<lparr>mfg_id = 600, part_id = 2, version = 0\<rparr>, Some \<lparr>name = ''ARC6xx''\<rparr>),
           [Write_IR (IR_IDCODE sample_arch), Read_DR 32])"
proof -
  have sel: "\<And>w. sim_port (\<lambda>j. 4) w [] (Write_IR (IR_IDCODE sample_arch)) \<noteq> None"
    by (simp add: sim_port_def)
  have rd: "\<And>w. sim_port (\<lambda>j. 4) w ([] @ [Write_IR (IR_IDCODE sample_arch)]) (Read_DR 32)
              = Some (bits_of_nat 32 w)"
    by (simp add: sim_port_def)
  have len: "\<And>w. length (bits_of_nat 32 w) = 32" by (rule length_bits_of_nat)
  have dec: "\<And>w. DR_IDCODE_from_bitarray sample_arch (bits_of_nat 32 w) = sample_idcode (bits_of_nat 32 w)"
    by (simp add: sample_arch_def)
  have cat: "devices sample_arch = [(600, 2) \<mapsto> \<lparr>name = ''ARC6xx''\<rparr>]"
    by (simp add: sample_arch_def)
  show ?thesis
    using identify_returns_idcode [OF sel [of "0xDEADBEEF"] rd [of "0xDEADBEEF"] len]
          identify_returns_idcode [OF sel [of 9393] rd [of 9393] len]
    by (simp add: dec cat sample_idcode_32)
qed

text \<open>
  C5. For a space other than \<^verbatim>\<open>"memory"\<close>, \<^verbatim>\<open>"core"\<close> and \<^verbatim>\<open>"aux"\<close>, both \<^verbatim>\<open>read\<close> and \<^verbatim>\<open>write\<close>
  fail with the assertion before they ask anything of the port: the list of requests is
  unchanged, whatever the port is. The assertion is neither the transaction failure nor
  a transport error.
\<close>

theorem invalid_space_asserts:
  assumes "space \<notin> {''memory'', ''core'', ''aux''}"
  shows "read A T address space h = Some (Inl AssertionError, h)
       \<and> write_op A T address data space h = Some (Inl AssertionError, h)
       \<and> AssertionError \<noteq> TransportError
       \<and> (\<forall>m. AssertionError \<noteq> GlasgowAppletError m)"
  using assms by (simp add: read_def write_op_def bind_raise)

theorem invalid_space_asserts_witness:
  "read sample_arch (sim_port (\<lambda>j. 4) 0) 0x1000 ''flash'' [] = Some (Inl AssertionError, [])
   \<and> write_op sample_arch (sim_port (\<lambda>j. 4) 0) 0x1000 7 ''flash'' [] = Some (Inl AssertionError, [])"
proof -
  have "''flash'' \<notin> {''memory'', ''core'', ''aux''}" by simp
  from invalid_space_asserts [OF this] show ?thesis by simp
qed

text \<open>
  C6. Over a port in order, a run of \<^verbatim>\<open>_wait_txn\<close> that returns has selected STATUS once and
  then only read 4 bits at a time. While polls show neither \<^verbatim>\<open>RD\<close> nor \<^verbatim>\<open>FL\<close> the loop
  neither ends nor fails: after \<open>n\<close> such polls every run that returns has polled more
  than \<open>n\<close> times, and for any \<open>n\<close>, if the next poll shows \<^verbatim>\<open>RD\<close> without \<^verbatim>\<open>FL\<close>, the call
  succeeds with exactly \<open>n + 1\<close> polls. There is no bound on \<open>n\<close>.
\<close>

theorem polling_continues_until_ready:
  fixes A :: arch and T :: lower and n :: nat and h :: "request list"
  defines "h1 \<equiv> h @ [Write_IR (IR_STATUS A)]"
  assumes ok: "port_ok T"
    and quiet: "\<forall>j<n. \<not> RD (status_at A T h1 j) \<and> \<not> FL (status_at A T h1 j)"
  shows "(\<forall>r h'. wait_txn A T h = Some (r, h') \<longrightarrow>
            (\<exists>k\<ge>n. h' = h @ Write_IR (IR_STATUS A) # replicate (Suc k) (Read_DR 4)
                   \<and> ir_selections (drop (length h) h') = [IR_STATUS A]))
       \<and> (RD (status_at A T h1 n) \<and> \<not> FL (status_at A T h1 n) \<longrightarrow>
            wait_txn A T h =
              Some (Inr (), h @ Write_IR (IR_STATUS A) # replicate (Suc n) (Read_DR 4)))"
proof (intro conjI allI impI)
  fix r h'
  assume ret: "wait_txn A T h = Some (r, h')"
  have sel: "T h (Write_IR (IR_STATUS A)) \<noteq> None" using ok by (simp add: port_ok_def)
  from wait_txn_returns [OF ret sel] obtain k where
    k: "poll A T h1 k = Some r"
       "h' = h @ Write_IR (IR_STATUS A) # replicate (Suc k) (Read_DR 4)"
    unfolding h1_def by blast
  have "n \<le> k"
  proof (rule ccontr)
    assume "\<not> n \<le> k"
    then have "k < n" by simp
    with quiet have "poll A T h1 k = None" by (simp add: poll_port_ok [OF ok])
    with k(1) show False by simp
  qed
  moreover have "ir_selections (drop (length h) h') = [IR_STATUS A]"
    using k(2) ir_selections_polls [of "Suc k" 4] by simp
  ultimately show "\<exists>k\<ge>n. h' = h @ Write_IR (IR_STATUS A) # replicate (Suc k) (Read_DR 4)
                   \<and> ir_selections (drop (length h) h') = [IR_STATUS A]"
    using k(2) by blast
next
  assume "RD (status_at A T h1 n) \<and> \<not> FL (status_at A T h1 n)"
  with wait_txn_run [OF ok, of n A h] quiet
  show "wait_txn A T h =
          Some (Inr (), h @ Write_IR (IR_STATUS A) # replicate (Suc n) (Read_DR 4))"
    by (simp add: h1_def)
qed

theorem polling_continues_until_ready_witness:
  "wait_txn sample_arch (sim_port (\<lambda>j. if j < 3 then 0 else 4) 0) [] =
     Some (Inr (), [Write_IR (IR_STATUS sample_arch), Read_DR 4, Read_DR 4, Read_DR 4, Read_DR 4])"
proof -
  let ?T = "sim_port (\<lambda>j. if j < 3 then 0 else 4) 0"
  have ok: "port_ok ?T" by (rule port_ok_sim_port)
  have quiet: "\<forall>j<3. \<not> RD (status_at sample_arch ?T ([] @ [Write_IR (IR_STATUS sample_arch)]) j)
                     \<and> \<not> FL (status_at sample_arch ?T ([] @ [Write_IR (IR_STATUS sample_arch)]) j)"
    by (simp add: status_at_sim_port sample_status_4)
  show ?thesis
    using polling_continues_until_ready [OF ok quiet]
    by (simp add: status_at_sim_port sample_status_4 numeral_3_eq_3)
qed



text \<open>
  C8. Round trip of the codec. For every register layout, so for IDCODE whatever the
  widths of its fields, decoding the encoding of a valid field assignment gives the
  fields back, and the encoding has the width of the register; every bit sequence of
  that width decodes to a valid field assignment that encodes to the same bits, so the
  decoder is defined on every well-formed input and loses nothing. The same for the
  32-bit registers ADDRESS and DATA with their single field.
\<close>

theorem codec_round_trip:
  "(valid_fields ws vs \<longrightarrow>
      bitstruct_from_bitarray ws (bitstruct_to_bitarray ws vs) = vs
      \<and> length (bitstruct_to_bitarray ws vs) = sum_list ws)
   \<and> (length bs = sum_list ws \<longrightarrow>
      valid_fields ws (bitstruct_from_bitarray ws bs)
      \<and> bitstruct_to_bitarray ws (bitstruct_from_bitarray ws bs) = bs)
   \<and> (a < 2 ^ 32 \<longrightarrow>
      DR_ADDRESS_from_bitarray (DR_ADDRESS_to_bitarray \<lparr>Address = a\<rparr>) = \<lparr>Address = a\<rparr>
      \<and> length (DR_ADDRESS_to_bitarray \<lparr>Address = a\<rparr>) = 32)
   \<and> (d < 2 ^ 32 \<longrightarrow>
      DR_DATA_from_bitarray (DR_DATA_to_bitarray \<lparr>Data = d\<rparr>) = \<lparr>Data = d\<rparr>
      \<and> length (DR_DATA_to_bitarray \<lparr>Data = d\<rparr>) = 32)
   \<and> (length bs32 = 32 \<longrightarrow>
      Address (DR_ADDRESS_from_bitarray bs32) < 2 ^ 32
      \<and> DR_ADDRESS_to_bitarray (DR_ADDRESS_from_bitarray bs32) = bs32
      \<and> Data (DR_DATA_from_bitarray bs32) < 2 ^ 32
      \<and> DR_DATA_to_bitarray (DR_DATA_from_bitarray bs32) = bs32)"
proof -
  have w32: "nat_of_bits bs32 < 2 ^ 32" if "length bs32 = 32"
    using nat_of_bits_less [of bs32] that by simp
  have e32: "bits_of_nat 32 (nat_of_bits bs32) = bs32" if "length bs32 = 32"
    using that by (rule bits_of_nat_of_bits)
  have alen: "length (DR_ADDRESS_to_bitarray \<lparr>Address = a\<rparr>) = 32"
    by (simp add: DR_ADDRESS_to_bitarray_def length_bits_of_nat)
  have dlen: "length (DR_DATA_to_bitarray \<lparr>Data = d\<rparr>) = 32"
    by (simp add: DR_DATA_to_bitarray_def length_bits_of_nat)
  have inv32: "Address (DR_ADDRESS_from_bitarray bs32) < 2 ^ 32
      \<and> DR_ADDRESS_to_bitarray (DR_ADDRESS_from_bitarray bs32) = bs32
      \<and> Data (DR_DATA_from_bitarray bs32) < 2 ^ 32
      \<and> DR_DATA_to_bitarray (DR_DATA_from_bitarray bs32) = bs32" if "length bs32 = 32"
    using w32 [OF that] e32 [OF that] that
    by (simp add: DR_ADDRESS_from_bitarray_def DR_ADDRESS_to_bitarray_def
          DR_DATA_from_bitarray_def DR_DATA_to_bitarray_def)
  show ?thesis
    using bitstruct_round_trip [of ws vs] bitstruct_width [of ws vs]
      bitstruct_decode_valid [of bs ws] bitstruct_decode_encode [of bs ws]
      address_round_trip [of a] data_round_trip [of d] alen dlen inv32
    by blast
qed

theorem codec_round_trip_witness:
  "valid_fields [1, 11, 16, 4] [1, 600, 2, 3]
   \<and> bitstruct_from_bitarray [1, 11, 16, 4] (bitstruct_to_bitarray [1, 11, 16, 4] [1, 600, 2, 3])
       = [1, 600, 2, 3]
   \<and> length (bitstruct_to_bitarray [1, 11, 16, 4] [1, 600, 2, 3]) = 32
   \<and> DR_ADDRESS_from_bitarray (DR_ADDRESS_to_bitarray \<lparr>Address = 0x1000\<rparr>) = \<lparr>Address = 0x1000\<rparr>
   \<and> DR_DATA_from_bitarray (DR_DATA_to_bitarray \<lparr>Data = 0xDEADBEEF\<rparr>) = \<lparr>Data = 0xDEADBEEF\<rparr>
   \<and> DR_DATA_to_bitarray (DR_DATA_from_bitarray (replicate 32 True)) = replicate 32 True
   \<and> bitstruct_to_bitarray [1, 11, 16, 4] (bitstruct_from_bitarray [1, 11, 16, 4] (replicate 32 True))
       = replicate 32 True"
proof -
  have v: "valid_fields [1, 11, 16, 4] [1, 600, 2, 3]" by simp
  have a: "(0x1000::nat) < 2 ^ 32" and d: "(0xDEADBEEF::nat) < 2 ^ 32" by simp_all
  have l: "length (replicate 32 True) = 32" "length (replicate 32 True) = sum_list [1, 11, 16, 4]"
    by simp_all
  have s: "sum_list [1, 11, 16, 4] = (32::nat)" by simp
  have "bitstruct_from_bitarray [1, 11, 16, 4] (bitstruct_to_bitarray [1, 11, 16, 4] [1, 600, 2, 3])
       = [1, 600, 2, 3]
   \<and> length (bitstruct_to_bitarray [1, 11, 16, 4] [1, 600, 2, 3]) = sum_list [1, 11, 16, 4]
   \<and> DR_ADDRESS_from_bitarray (DR_ADDRESS_to_bitarray \<lparr>Address = 0x1000\<rparr>) = \<lparr>Address = 0x1000\<rparr>
   \<and> DR_DATA_from_bitarray (DR_DATA_to_bitarray \<lparr>Data = 0xDEADBEEF\<rparr>) = \<lparr>Data = 0xDEADBEEF\<rparr>
   \<and> DR_DATA_to_bitarray (DR_DATA_from_bitarray (replicate 32 True)) = replicate 32 True
   \<and> bitstruct_to_bitarray [1, 11, 16, 4] (bitstruct_from_bitarray [1, 11, 16, 4] (replicate 32 True))
       = replicate 32 True"
    using codec_round_trip [where ws = "[1, 11, 16, 4]" and vs = "[1, 600, 2, 3]"
            and bs = "replicate 32 True" and a = "0x1000" and d = "0xDEADBEEF"
            and ?bs32.0 = "replicate 32 True"] v a d l
    by blast
  then show ?thesis using v unfolding s by blast
qed

text \<open>
  C9. Over a port in order, when \<^verbatim>\<open>write\<close> fails in the polling phase, the port has by
  then received the encoded address, the encoded data and the \<^verbatim>\<open>WRITE_*\<close> opcode, in this
  order, and the failing poll is the last request: nothing is undone and nothing
  follows.
\<close>

theorem failed_write_keeps_payload:
  fixes A :: arch and T :: lower and address data n :: nat and h :: "request list"
    and space :: string and opcode :: bits
  defines "h1 \<equiv> h @ [Write_IR (IR_ADDRESS A),
                      Write_DR (DR_ADDRESS_to_bitarray \<lparr>Address = address\<rparr>),
                      Write_IR (IR_DATA A),
                      Write_DR (DR_DATA_to_bitarray \<lparr>Data = data\<rparr>),
                      Write_IR (IR_TXN_COMMAND A), Write_DR opcode,
                      Write_IR (IR_STATUS A)]"
  assumes ok: "port_ok T"
    and sp: "(space, opcode) \<in> {(''memory'', DR_TXN_COMMAND_WRITE_MEMORY A),
                                (''core'', DR_TXN_COMMAND_WRITE_CORE A),
                                (''aux'', DR_TXN_COMMAND_WRITE_AUX A)}"
    and quiet: "\<forall>j<n. \<not> RD (status_at A T h1 j) \<and> \<not> FL (status_at A T h1 j)"
    and fl: "FL (status_at A T h1 n)"
  shows "\<exists>h'. write_op A T address data space h =
                Some (Inl (GlasgowAppletError ''transaction failed''), h')
            \<and> drop (length h) h' =
                [Write_IR (IR_ADDRESS A),
                 Write_DR (DR_ADDRESS_to_bitarray \<lparr>Address = address\<rparr>),
                 Write_IR (IR_DATA A),
                 Write_DR (DR_DATA_to_bitarray \<lparr>Data = data\<rparr>),
                 Write_IR (IR_TXN_COMMAND A), Write_DR opcode,
                 Write_IR (IR_STATUS A)] @ replicate (Suc n) (Read_DR 4)
            \<and> take (length h) h' = h
            \<and> Write_DR (DR_ADDRESS_to_bitarray \<lparr>Address = address\<rparr>) \<in> set (drop (length h) h')
            \<and> Write_DR (DR_DATA_to_bitarray \<lparr>Data = data\<rparr>) \<in> set (drop (length h) h')
            \<and> Write_DR opcode \<in> set (drop (length h) h')
            \<and> last h' = Read_DR 4"
proof -
  have "write_op A T address data space h =
          Some (Inl (GlasgowAppletError ''transaction failed''),
                h1 @ replicate (Suc n) (Read_DR 4))"
    using write_polls [OF ok sp _ _ disjI2 [OF fl]] quiet fl by (simp add: h1_def)
  then show ?thesis by (simp add: h1_def)
qed

theorem failed_write_keeps_payload_witness:
  "write_op sample_arch (sim_port (\<lambda>j. if j < 2 then 0 else 2) 0) 0x1000 0xCAFE ''memory'' [] =
     Some (Inl (GlasgowAppletError ''transaction failed''),
           [Write_IR (IR_ADDRESS sample_arch),
            Write_DR (DR_ADDRESS_to_bitarray \<lparr>Address = 0x1000\<rparr>),
            Write_IR (IR_DATA sample_arch),
            Write_DR (DR_DATA_to_bitarray \<lparr>Data = 0xCAFE\<rparr>),
            Write_IR (IR_TXN_COMMAND sample_arch),
            Write_DR (DR_TXN_COMMAND_WRITE_MEMORY sample_arch),
            Write_IR (IR_STATUS sample_arch),
            Read_DR 4, Read_DR 4, Read_DR 4])"
proof -
  let ?T = "sim_port (\<lambda>j. if j < 2 then 0 else 2) 0"
  let ?h1 = "[] @ [Write_IR (IR_ADDRESS sample_arch),
            Write_DR (DR_ADDRESS_to_bitarray \<lparr>Address = 0x1000\<rparr>),
            Write_IR (IR_DATA sample_arch),
            Write_DR (DR_DATA_to_bitarray \<lparr>Data = 0xCAFE\<rparr>),
            Write_IR (IR_TXN_COMMAND sample_arch),
            Write_DR (DR_TXN_COMMAND_WRITE_MEMORY sample_arch),
            Write_IR (IR_STATUS sample_arch)]"
  have ok: "port_ok ?T" by (rule port_ok_sim_port)
  have sp: "(''memory'', DR_TXN_COMMAND_WRITE_MEMORY sample_arch) \<in>
              {(''memory'', DR_TXN_COMMAND_WRITE_MEMORY sample_arch),
               (''core'', DR_TXN_COMMAND_WRITE_CORE sample_arch),
               (''aux'', DR_TXN_COMMAND_WRITE_AUX sample_arch)}" by simp
  have quiet: "\<forall>j<2. \<not> RD (status_at sample_arch ?T ?h1 j) \<and> \<not> FL (status_at sample_arch ?T ?h1 j)"
    by (simp add: status_at_sim_port sample_status_4)
  have fl: "FL (status_at sample_arch ?T ?h1 2)"
    by (simp add: status_at_sim_port sample_status_4)
  from failed_write_keeps_payload [OF ok sp quiet fl] obtain h' where
    "write_op sample_arch ?T 0x1000 0xCAFE ''memory'' [] =
       Some (Inl (GlasgowAppletError ''transaction failed''), h')"
    and "drop (length ([]::request list)) h' = ?h1 @ replicate (Suc 2) (Read_DR 4)"
    by auto
  then show ?thesis by (simp add: numeral_2_eq_2)
qed

text \<open>
  C10. A call that reaches the polling phase reads the status at least once, whether or
  not it ever returns. Once the port has accepted the selection of STATUS, \<^verbatim>\<open>_wait_txn\<close> is
  a read of 4 bits followed by the test of \<^verbatim>\<open>FL\<close> and the loop entered with the status
  just read, never with the initial \<^verbatim>\<open>DR_STATUS()\<close>; it returns a result exactly when some
  poll ends the loop, with the requests up to and including that poll, and it never
  returns exactly when no poll ends the loop. A normal return ends with a poll that the
  port answered with 4 bits showing \<^verbatim>\<open>RD\<close> and not \<^verbatim>\<open>FL\<close>. Over a port in order, \<^verbatim>\<open>read\<close> and
  \<^verbatim>\<open>write\<close> with a valid space are, after their setup requests and the selection of
  STATUS, a first poll followed by the rest of the call, and every run of them that
  returns contains a poll.
\<close>

theorem polling_reads_status_at_least_once:
  fixes A :: arch and T :: lower and address data :: nat and h :: "request list"
    and rspace wspace :: string and rcmd wcmd :: bits
  defines "h1 \<equiv> h @ [Write_IR (IR_STATUS A)]"
  defines "hr \<equiv> h @ [Write_IR (IR_ADDRESS A),
                      Write_DR (DR_ADDRESS_to_bitarray \<lparr>Address = address\<rparr>),
                      Write_IR (IR_TXN_COMMAND A), Write_DR rcmd,
                      Write_IR (IR_STATUS A)]"
  defines "hw \<equiv> h @ [Write_IR (IR_ADDRESS A),
                      Write_DR (DR_ADDRESS_to_bitarray \<lparr>Address = address\<rparr>),
                      Write_IR (IR_DATA A),
                      Write_DR (DR_DATA_to_bitarray \<lparr>Data = data\<rparr>),
                      Write_IR (IR_TXN_COMMAND A), Write_DR wcmd,
                      Write_IR (IR_STATUS A)]"
  shows "(T h (Write_IR (IR_STATUS A)) \<noteq> None \<longrightarrow>
            wait_txn A T h =
              io_bind (read_dr T 4) (\<lambda>status_bits.
                if FL (DR_STATUS_from_bitarray A status_bits)
                then io_raise (GlasgowAppletError ''transaction failed'')
                else wait_loop A T (DR_STATUS_from_bitarray A status_bits)) h1
          \<and> (\<forall>r h'. wait_txn A T h = Some (r, h') \<longleftrightarrow>
                (\<exists>k. (\<forall>j<k. poll A T h1 j = None) \<and> poll A T h1 k = Some r
                     \<and> h' = h1 @ replicate (Suc k) (Read_DR 4)))
          \<and> (wait_txn A T h = None \<longleftrightarrow> (\<forall>j. poll A T h1 j = None)))
       \<and> (\<forall>h'. wait_txn A T h = Some (Inr (), h') \<longrightarrow>
            (\<exists>k bs. h' = h1 @ replicate (Suc k) (Read_DR 4)
                   \<and> T (h1 @ replicate k (Read_DR 4)) (Read_DR 4) = Some bs
                   \<and> length bs = 4
                   \<and> RD (DR_STATUS_from_bitarray A bs)
                   \<and> \<not> FL (DR_STATUS_from_bitarray A bs)))
       \<and> (port_ok T \<and> (rspace, rcmd) \<in> {(''memory'', DR_TXN_COMMAND_READ_MEMORY A),
                                          (''core'', DR_TXN_COMMAND_READ_CORE A),
                                          (''aux'', DR_TXN_COMMAND_READ_AUX A)} \<longrightarrow>
            read A T address rspace h =
              (if FL (status_at A T hr 0)
               then Some (Inl (GlasgowAppletError ''transaction failed''), hr @ [Read_DR 4])
               else io_bind (wait_loop A T (status_at A T hr 0)) (\<lambda>_.
                    io_bind (write_ir T (IR_DATA A)) (\<lambda>_.
                    io_bind (read_dr T 32) (\<lambda>dr_data_bits.
                      io_return (Data (DR_DATA_from_bitarray dr_data_bits)))))
                      (hr @ [Read_DR 4]))
          \<and> (\<forall>r h'. read A T address rspace h = Some (r, h') \<longrightarrow>
                Read_DR 4 \<in> set (drop (length h) h')))
       \<and> (port_ok T \<and> (wspace, wcmd) \<in> {(''memory'', DR_TXN_COMMAND_WRITE_MEMORY A),
                                          (''core'', DR_TXN_COMMAND_WRITE_CORE A),
                                          (''aux'', DR_TXN_COMMAND_WRITE_AUX A)} \<longrightarrow>
            write_op A T address data wspace h =
              (if FL (status_at A T hw 0)
               then Some (Inl (GlasgowAppletError ''transaction failed''), hw @ [Read_DR 4])
               else wait_loop A T (status_at A T hw 0) (hw @ [Read_DR 4]))
          \<and> (\<forall>r h'. write_op A T address data wspace h = Some (r, h') \<longrightarrow>
                Read_DR 4 \<in> set (drop (length h) h')))"
proof -
  have nrd: "\<not> RD DR_STATUS_new" by (simp add: DR_STATUS_new_def)
  have p1: "T h (Write_IR (IR_STATUS A)) \<noteq> None \<longrightarrow>
            wait_txn A T h =
              io_bind (read_dr T 4) (\<lambda>status_bits.
                if FL (DR_STATUS_from_bitarray A status_bits)
                then io_raise (GlasgowAppletError ''transaction failed'')
                else wait_loop A T (DR_STATUS_from_bitarray A status_bits)) h1
          \<and> (\<forall>r h'. wait_txn A T h = Some (r, h') \<longleftrightarrow>
                (\<exists>k. (\<forall>j<k. poll A T h1 j = None) \<and> poll A T h1 k = Some r
                     \<and> h' = h1 @ replicate (Suc k) (Read_DR 4)))
          \<and> (wait_txn A T h = None \<longleftrightarrow> (\<forall>j. poll A T h1 j = None))"
  proof
    assume sel: "T h (Write_IR (IR_STATUS A)) \<noteq> None"
    have w: "wait_txn A T h = wait_loop A T DR_STATUS_new h1"
      using wait_txn_selected [where T = T and h = h and A = A] sel by (simp add: h1_def)
    show "wait_txn A T h =
              io_bind (read_dr T 4) (\<lambda>status_bits.
                if FL (DR_STATUS_from_bitarray A status_bits)
                then io_raise (GlasgowAppletError ''transaction failed'')
                else wait_loop A T (DR_STATUS_from_bitarray A status_bits)) h1
          \<and> (\<forall>r h'. wait_txn A T h = Some (r, h') \<longleftrightarrow>
                (\<exists>k. (\<forall>j<k. poll A T h1 j = None) \<and> poll A T h1 k = Some r
                     \<and> h' = h1 @ replicate (Suc k) (Read_DR 4)))
          \<and> (wait_txn A T h = None \<longleftrightarrow> (\<forall>j. poll A T h1 j = None))"
      unfolding w
      using wait_loop_first_poll [OF nrd, of A T h1] wait_loop_Some_iff [OF nrd, of A T h1]
        wait_loop_None_iff [OF nrd, of A T h1]
      by blast
  qed
  have p2: "\<forall>h'. wait_txn A T h = Some (Inr (), h') \<longrightarrow>
            (\<exists>k bs. h' = h1 @ replicate (Suc k) (Read_DR 4)
                   \<and> T (h1 @ replicate k (Read_DR 4)) (Read_DR 4) = Some bs
                   \<and> length bs = 4
                   \<and> RD (DR_STATUS_from_bitarray A bs)
                   \<and> \<not> FL (DR_STATUS_from_bitarray A bs))"
  proof (intro allI impI)
    fix h'
    assume ret: "wait_txn A T h = Some (Inr (), h')"
    have sel: "T h (Write_IR (IR_STATUS A)) \<noteq> None"
    proof
      assume "T h (Write_IR (IR_STATUS A)) = None"
      from wait_txn_no_select [of T h A] this ret show False by simp
    qed
    from wait_txn_returns [OF ret sel] obtain k where
      k: "poll A T h1 k = Some (Inr ())" "h' = h1 @ replicate (Suc k) (Read_DR 4)"
      unfolding h1_def by auto
    from k(1) obtain bs where
      "T (h1 @ replicate k (Read_DR 4)) (Read_DR 4) = Some bs"
      "length bs = 4" "RD (DR_STATUS_from_bitarray A bs)" "\<not> FL (DR_STATUS_from_bitarray A bs)"
      by (auto simp: poll_def split: option.splits if_splits)
    with k(2) show "\<exists>k bs. h' = h1 @ replicate (Suc k) (Read_DR 4)
                   \<and> T (h1 @ replicate k (Read_DR 4)) (Read_DR 4) = Some bs
                   \<and> length bs = 4
                   \<and> RD (DR_STATUS_from_bitarray A bs)
                   \<and> \<not> FL (DR_STATUS_from_bitarray A bs)"
      by blast
  qed
  have p3: "port_ok T \<and> (rspace, rcmd) \<in> {(''memory'', DR_TXN_COMMAND_READ_MEMORY A),
                                          (''core'', DR_TXN_COMMAND_READ_CORE A),
                                          (''aux'', DR_TXN_COMMAND_READ_AUX A)} \<longrightarrow>
            read A T address rspace h =
              (if FL (status_at A T hr 0)
               then Some (Inl (GlasgowAppletError ''transaction failed''), hr @ [Read_DR 4])
               else io_bind (wait_loop A T (status_at A T hr 0)) (\<lambda>_.
                    io_bind (write_ir T (IR_DATA A)) (\<lambda>_.
                    io_bind (read_dr T 32) (\<lambda>dr_data_bits.
                      io_return (Data (DR_DATA_from_bitarray dr_data_bits)))))
                      (hr @ [Read_DR 4]))
          \<and> (\<forall>r h'. read A T address rspace h = Some (r, h') \<longrightarrow>
                Read_DR 4 \<in> set (drop (length h) h'))"
  proof (intro impI conjI allI)
    assume a: "port_ok T \<and> (rspace, rcmd) \<in> {(''memory'', DR_TXN_COMMAND_READ_MEMORY A),
                                          (''core'', DR_TXN_COMMAND_READ_CORE A),
                                          (''aux'', DR_TXN_COMMAND_READ_AUX A)}"
    show "read A T address rspace h =
              (if FL (status_at A T hr 0)
               then Some (Inl (GlasgowAppletError ''transaction failed''), hr @ [Read_DR 4])
               else io_bind (wait_loop A T (status_at A T hr 0)) (\<lambda>_.
                    io_bind (write_ir T (IR_DATA A)) (\<lambda>_.
                    io_bind (read_dr T 32) (\<lambda>dr_data_bits.
                      io_return (Data (DR_DATA_from_bitarray dr_data_bits)))))
                      (hr @ [Read_DR 4]))"
      using a by (intro read_first_poll) (simp_all add: hr_def)
  next
    fix r h'
    assume a: "port_ok T \<and> (rspace, rcmd) \<in> {(''memory'', DR_TXN_COMMAND_READ_MEMORY A),
                                          (''core'', DR_TXN_COMMAND_READ_CORE A),
                                          (''aux'', DR_TXN_COMMAND_READ_AUX A)}"
      and ret: "read A T address rspace h = Some (r, h')"
    from a have "rspace \<in> {''memory'', ''core'', ''aux''}" by auto
    with a ret show "Read_DR 4 \<in> set (drop (length h) h')"
      using read_polls_once [of T rspace A address h r h'] by blast
  qed
  have p4: "port_ok T \<and> (wspace, wcmd) \<in> {(''memory'', DR_TXN_COMMAND_WRITE_MEMORY A),
                                          (''core'', DR_TXN_COMMAND_WRITE_CORE A),
                                          (''aux'', DR_TXN_COMMAND_WRITE_AUX A)} \<longrightarrow>
            write_op A T address data wspace h =
              (if FL (status_at A T hw 0)
               then Some (Inl (GlasgowAppletError ''transaction failed''), hw @ [Read_DR 4])
               else wait_loop A T (status_at A T hw 0) (hw @ [Read_DR 4]))
          \<and> (\<forall>r h'. write_op A T address data wspace h = Some (r, h') \<longrightarrow>
                Read_DR 4 \<in> set (drop (length h) h'))"
  proof (intro impI conjI allI)
    assume a: "port_ok T \<and> (wspace, wcmd) \<in> {(''memory'', DR_TXN_COMMAND_WRITE_MEMORY A),
                                          (''core'', DR_TXN_COMMAND_WRITE_CORE A),
                                          (''aux'', DR_TXN_COMMAND_WRITE_AUX A)}"
    show "write_op A T address data wspace h =
              (if FL (status_at A T hw 0)
               then Some (Inl (GlasgowAppletError ''transaction failed''), hw @ [Read_DR 4])
               else wait_loop A T (status_at A T hw 0) (hw @ [Read_DR 4]))"
      using a by (intro write_first_poll) (simp_all add: hw_def)
  next
    fix r h'
    assume a: "port_ok T \<and> (wspace, wcmd) \<in> {(''memory'', DR_TXN_COMMAND_WRITE_MEMORY A),
                                          (''core'', DR_TXN_COMMAND_WRITE_CORE A),
                                          (''aux'', DR_TXN_COMMAND_WRITE_AUX A)}"
      and ret: "write_op A T address data wspace h = Some (r, h')"
    from a have "wspace \<in> {''memory'', ''core'', ''aux''}" by auto
    with a ret show "Read_DR 4 \<in> set (drop (length h) h')"
      using write_polls_once [of T wspace A address data h r h'] by blast
  qed
  show ?thesis by (rule conjI [OF p1 conjI [OF p2 conjI [OF p3 p4]]])
qed

theorem polling_reads_status_at_least_once_witness:
  "wait_txn sample_arch (sim_port (\<lambda>j. 4) 0) [] =
     Some (Inr (), [Write_IR (IR_STATUS sample_arch), Read_DR 4])
   \<and> read sample_arch (sim_port (\<lambda>j. 2) 0) 0x1000 ''core'' [] =
     Some (Inl (GlasgowAppletError ''transaction failed''),
           [Write_IR (IR_ADDRESS sample_arch),
            Write_DR (DR_ADDRESS_to_bitarray \<lparr>Address = 0x1000\<rparr>),
            Write_IR (IR_TXN_COMMAND sample_arch),
            Write_DR (DR_TXN_COMMAND_READ_CORE sample_arch),
            Write_IR (IR_STATUS sample_arch),
            Read_DR 4])
   \<and> write_op sample_arch (sim_port (\<lambda>j. 4) 0) 0x1000 0xCAFE ''aux'' [] =
     Some (Inr (),
           [Write_IR (IR_ADDRESS sample_arch),
            Write_DR (DR_ADDRESS_to_bitarray \<lparr>Address = 0x1000\<rparr>),
            Write_IR (IR_DATA sample_arch),
            Write_DR (DR_DATA_to_bitarray \<lparr>Data = 0xCAFE\<rparr>),
            Write_IR (IR_TXN_COMMAND sample_arch),
            Write_DR (DR_TXN_COMMAND_WRITE_AUX sample_arch),
            Write_IR (IR_STATUS sample_arch),
            Read_DR 4])
   \<and> wait_txn sample_arch (sim_port (\<lambda>j. 0) 0) [] = None"
proof -
  let ?T = "sim_port (\<lambda>j. 4) 0"
  let ?F = "sim_port (\<lambda>j. 2) 0"
  let ?Q = "sim_port (\<lambda>j. 0) 0"
  let ?h1 = "[] @ [Write_IR (IR_STATUS sample_arch)]"
  have okT: "port_ok ?T" and okF: "port_ok ?F" by (rule port_ok_sim_port)+
  have selT: "?T [] (Write_IR (IR_STATUS sample_arch)) \<noteq> None"
    and selQ: "?Q [] (Write_IR (IR_STATUS sample_arch)) \<noteq> None"
    by (simp_all add: sim_port_def)
  have rsp: "(''core'', DR_TXN_COMMAND_READ_CORE sample_arch) \<in>
              {(''memory'', DR_TXN_COMMAND_READ_MEMORY sample_arch),
               (''core'', DR_TXN_COMMAND_READ_CORE sample_arch),
               (''aux'', DR_TXN_COMMAND_READ_AUX sample_arch)}" by simp
  have wsp: "(''aux'', DR_TXN_COMMAND_WRITE_AUX sample_arch) \<in>
              {(''memory'', DR_TXN_COMMAND_WRITE_MEMORY sample_arch),
               (''core'', DR_TXN_COMMAND_WRITE_CORE sample_arch),
               (''aux'', DR_TXN_COMMAND_WRITE_AUX sample_arch)}" by simp
  have pT: "poll sample_arch ?T ?h1 0 = Some (Inr ())"
    by (simp add: poll_port_ok [OF okT] status_at_sim_port sample_status_4)
  have pQ: "\<forall>j. poll sample_arch ?Q ?h1 j = None"
    by (simp add: poll_port_ok [OF port_ok_sim_port] status_at_sim_port sample_status_4)
  note tT = polling_reads_status_at_least_once [where T = ?T and A = sample_arch and h = "[]"
      and address = "0x1000" and data = "0xCAFE" and wspace = "''aux''"
      and wcmd = "DR_TXN_COMMAND_WRITE_AUX sample_arch"]
  note tF = polling_reads_status_at_least_once [where T = ?F and A = sample_arch and h = "[]"
      and address = "0x1000" and rspace = "''core''"
      and rcmd = "DR_TXN_COMMAND_READ_CORE sample_arch"]
  note tQ = polling_reads_status_at_least_once [where T = ?Q and A = sample_arch and h = "[]"]
  have a: "wait_txn sample_arch ?T [] =
     Some (Inr (), [Write_IR (IR_STATUS sample_arch), Read_DR 4])"
    using tT [THEN conjunct1, rule_format, OF selT, THEN conjunct2, THEN conjunct1] pT
    by simp
  have b: "read sample_arch ?F 0x1000 ''core'' [] =
     Some (Inl (GlasgowAppletError ''transaction failed''),
           [Write_IR (IR_ADDRESS sample_arch),
            Write_DR (DR_ADDRESS_to_bitarray \<lparr>Address = 0x1000\<rparr>),
            Write_IR (IR_TXN_COMMAND sample_arch),
            Write_DR (DR_TXN_COMMAND_READ_CORE sample_arch),
            Write_IR (IR_STATUS sample_arch),
            Read_DR 4])"
    using tF [THEN conjunct2, THEN conjunct2, THEN conjunct1, rule_format,
              OF conjI [OF okF rsp], THEN conjunct1]
    by (simp add: status_at_sim_port sample_status_4)
  have c: "write_op sample_arch ?T 0x1000 0xCAFE ''aux'' [] =
     Some (Inr (),
           [Write_IR (IR_ADDRESS sample_arch),
            Write_DR (DR_ADDRESS_to_bitarray \<lparr>Address = 0x1000\<rparr>),
            Write_IR (IR_DATA sample_arch),
            Write_DR (DR_DATA_to_bitarray \<lparr>Data = 0xCAFE\<rparr>),
            Write_IR (IR_TXN_COMMAND sample_arch),
            Write_DR (DR_TXN_COMMAND_WRITE_AUX sample_arch),
            Write_IR (IR_STATUS sample_arch),
            Read_DR 4])"
    using tT [THEN conjunct2, THEN conjunct2, THEN conjunct2, rule_format,
              OF conjI [OF okT wsp], THEN conjunct1]
    by (simp add: status_at_sim_port sample_status_4 wait_loop_RD)
  have d: "wait_txn sample_arch ?Q [] = None"
    using tQ [THEN conjunct1, rule_format, OF selQ, THEN conjunct2, THEN conjunct2] pQ
    by simp
  show ?thesis by (rule conjI [OF a conjI [OF b conjI [OF c d]]])
qed

end
